theory Spec2Isabelle
  imports Main "HOL-Library.Sublist"
begin

section \<open>AI Hype-Watch: a shallow embedding of src/index.ts\<close>

text \<open>
  The program is a sequential pipeline over three external collaborators (the news
  provider, the language-model provider, the file system).  Each source function
  becomes a state-passing function over a \<open>world\<close>: the replies the providers
  will give are a script consumed call by call, the file system is a map from paths
  to files, and everything the program does to the outside is appended to a trace.
  A thrown exception is the \<open>Inl\<close> branch of a sum.
\<close>

subsection \<open>JavaScript values\<close>

text \<open>
  What \<open>JSON.parse\<close> returns, plus \<open>undefined\<close> (the value of a missing
  property).  An object keeps its members in source order; a repeated key is
  overridden by its last occurrence, as in \<open>JSON.parse\<close>.
\<close>

datatype jsval =
    JUndefined
  | JNull
  | JBool bool
  | JNum int
  | JStr string
  | JArr "jsval list"
  | JObj "(string \<times> jsval) list"

datatype error =
    LlmCallError
  | TypeError
  | SyntaxError
  | AnalysisParseError
  | HttpError
  | NoRelevantArticles
  | MarkedError

text \<open>
  Property access \<open>v.k\<close> for a key that is no built-in property: a TypeError on
  \<open>undefined\<close> and \<open>null\<close>, the member of an object, \<open>undefined\<close> otherwise.
\<close>

fun get_prop :: "jsval \<Rightarrow> string \<Rightarrow> error + jsval" where
  "get_prop JUndefined k = Inl TypeError"
| "get_prop JNull k = Inl TypeError"
| "get_prop (JObj kvs) k =
     (case map_of (rev kvs) k of None \<Rightarrow> Inr JUndefined | Some v \<Rightarrow> Inr v)"
| "get_prop v k = Inr JUndefined"

text \<open>Sequencing of steps that may throw: the first error ends the sequence.\<close>

fun bind_err :: "error + 'a \<Rightarrow> ('a \<Rightarrow> error + 'b) \<Rightarrow> error + 'b" where
  "bind_err (Inl e) f = Inl e"
| "bind_err (Inr v) f = f v"

subsection \<open>Articles\<close>

record NewsArticle =
  title :: string
  url :: string
  source :: string
  description :: string

subsection \<open>The outside world\<close>

text \<open>
  A reply of the chat-completion endpoint: the call rejects, or the completion has
  no \<open>choices[0].message\<close>, or it carries a content (\<open>null\<close> is \<open>None\<close>).
\<close>

datatype llm_reply = CallFails | NoMessage | Content "string option"

text \<open>
  A reply of the news endpoint: the request rejects, or \<open>response.data.articles\<close>
  is missing, or it is a list of raw articles.  A raw article's description may be
  \<open>null\<close>.
\<close>

record RawArticle =
  raw_title :: string
  raw_url :: string
  raw_source_name :: string
  raw_description :: "string option"

datatype news_reply = RequestFails | NoArticlesField | Articles "RawArticle list"

text \<open>The lines the program prints, one constructor per logging statement.\<close>

datatype console =
    MsgGatekeeperError string
  | MsgLoadingFromCache int
  | MsgCacheTooSmall "nat option" int
  | MsgFetchingFromApi int
  | MsgFetchingPage nat
  | MsgNoMoreArticles
  | MsgRelevant string
  | MsgSkipped string
  | MsgFetchPageError nat
  | MsgUsingCached string
  | MsgRequestingLlm string
  | MsgReportGenerated string
  | MsgStarting
  | MsgInvestigating nat nat string
  | MsgWaiting int
  | MsgFailedToAnalyze string
  | MsgStopped

text \<open>
  A cache file holds what \<open>JSON.stringify\<close> wrote: an article list, or an analysis
  entry \<open>{title, url, analysis, timestamp}\<close>; a report file holds HTML.  A file whose
  text \<open>JSON.parse\<close> rejects is \<open>Unparseable\<close>.
\<close>

record AnalysisCacheEntry =
  entry_title :: string
  entry_url :: string
  entry_analysis :: jsval
  entry_timestamp :: string

datatype file_content =
    ArticleListFile "NewsArticle list"
  | AnalysisFile AnalysisCacheEntry
  | HtmlFile string
  | Unparseable

record fsfile =
  mtimeMs :: int
  content :: file_content

datatype event =
    LlmRequest string string
  | HttpGet string string nat
  | Sleep int
  | WriteFile string file_content
  | MkDir string
  | Console console

record world =
  llmScript :: "llm_reply list"
  newsScript :: "news_reply list"
  files :: "string \<rightharpoonup> fsfile"
  dirs :: "string set"
  nowMs :: int
  trace :: "event list"

text \<open>
  The clock \<open>nowMs\<close> is what \<open>Date.now()\<close> and \<open>new Date()\<close> read; in a run it
  is advanced by \<open>sleep\<close> only.  File-system calls are taken to succeed.
\<close>

definition emit :: "event \<Rightarrow> world \<Rightarrow> world" where
  "emit e w = w\<lparr>trace := trace w @ [e]\<rparr>"

text \<open>
  \<open>client.chat.completions.create\<close> with a system and a user message: the request
  is recorded and the next scripted reply is consumed.  An exhausted script is a
  failing call.
\<close>

definition chat_create :: "string \<Rightarrow> string \<Rightarrow> world \<Rightarrow> (error + llm_reply) \<times> world" where
  "chat_create sys usr w =
     (let w1 = emit (LlmRequest sys usr) w in
      case llmScript w1 of
        [] \<Rightarrow> (Inl LlmCallError, w1)
      | CallFails # rs \<Rightarrow> (Inl LlmCallError, w1\<lparr>llmScript := rs\<rparr>)
      | r # rs \<Rightarrow> (Inr r, w1\<lparr>llmScript := rs\<rparr>))"

text \<open>\<open>completion.choices[0].message.content || "{}"\<close>.\<close>

fun message_content :: "llm_reply \<Rightarrow> error + string" where
  "message_content CallFails = Inl LlmCallError"
| "message_content NoMessage = Inl TypeError"
| "message_content (Content None) = Inr ''{}''"
| "message_content (Content (Some s)) = Inr (if s = [] then ''{}'' else s)"

subsection \<open>External pure functions\<close>

text \<open>
  The libraries the program calls and does not define: \<open>JSON.parse\<close> (\<open>None\<close>
  when it throws a SyntaxError), \<open>marked.parse\<close> on a JavaScript value (\<open>None\<close>
  when it throws), the hexadecimal MD5 digest of \<open>node:crypto\<close>, the
  formatting of dates (an instant is its milliseconds; \<open>minusDays t n\<close> is the
  instant \<open>setDate(getDate() - n)\<close> moves \<open>t\<close> to), and the language's
  conversions of a value that is no number to a number (\<open>None\<close> is NaN) and of
  a value to a string.
\<close>

record ext =
  JSON_parse :: "string \<Rightarrow> jsval option"
  marked_parse :: "jsval \<Rightarrow> string option"
  md5_hex :: "string \<Rightarrow> string"
  toISOString :: "int \<Rightarrow> string"
  toLocaleDateString :: "int \<Rightarrow> string"
  minusDays :: "int \<Rightarrow> nat \<Rightarrow> int"
  js_ToNumber :: "jsval \<Rightarrow> int option"
  js_ToString :: "jsval \<Rightarrow> string"

subsection \<open>Agent 1.5: the Gatekeeper\<close>

definition gatekeeperSystem :: string where
  "gatekeeperSystem = ''You are a strict news editor. Output JSON.''"

definition gatekeeperUser :: "NewsArticle \<Rightarrow> string" where
  "gatekeeperUser article =
     ''\<newline>          Analyze if this article is explicitly about a specific business use case, corporate strategy, market trend, or financial implication of AI.\<newline>''
   @ ''          Discard generic \"AI is the future\" fluff, pure research papers, or simple product announcements without business context.\<newline>''
   @ ''\<newline>''
   @ ''          Title: \"'' @ title article @ ''\"\<newline>''
   @ ''          Description: \"'' @ description article @ ''\"\<newline>''
   @ ''          \<newline>''
   @ ''          Return JSON: { \"is_business_case\": boolean }\<newline>''
   @ ''        ''"

text \<open>The body of the \<open>try\<close> block of \<open>validateRelevance\<close>.\<close>

definition validateRelevance_try :: "ext \<Rightarrow> NewsArticle \<Rightarrow> world \<Rightarrow> (error + bool) \<times> world" where
  "validateRelevance_try x article w =
     (case chat_create gatekeeperSystem (gatekeeperUser article) w of
        (Inl e, w1) \<Rightarrow> (Inl e, w1)
      | (Inr completion, w1) \<Rightarrow>
          (case message_content completion of
             Inl e \<Rightarrow> (Inl e, w1)
           | Inr text \<Rightarrow>
               (case JSON_parse x text of
                  None \<Rightarrow> (Inl SyntaxError, w1)
                | Some result \<Rightarrow>
                    (case get_prop result ''is_business_case'' of
                       Inl e \<Rightarrow> (Inl e, w1)
                     | Inr v \<Rightarrow> (Inr (v = JBool True), w1)))))"

text \<open>\<open>validateRelevance\<close>: the \<open>catch\<close> logs and returns \<open>false\<close>.\<close>

definition validateRelevance :: "ext \<Rightarrow> NewsArticle \<Rightarrow> world \<Rightarrow> (error + bool) \<times> world" where
  "validateRelevance x article w =
     (case validateRelevance_try x article w of
        (Inl e, w1) \<Rightarrow> (Inr False, emit (Console (MsgGatekeeperError (title article))) w1)
      | (Inr b, w1) \<Rightarrow> (Inr b, w1))"

subsection \<open>Configuration and paths\<close>

text \<open>
  \<open>CONFIG\<close> (the numbers the functions read) and \<open>process.cwd()\<close>.  The cache
  directory exists once the module is loaded; \<open>path.join\<close> of two plain segments
  puts a slash between them.
\<close>

record config =
  cwd :: string
  newsMaxRequests :: int
  newsBatchSize :: int
  respectRPM :: int

definition path_join :: "string \<Rightarrow> string \<Rightarrow> string" where
  "path_join a b = a @ ''/'' @ b"

definition CACHE_DIR :: "config \<Rightarrow> string" where
  "CACHE_DIR c = path_join (cwd c) ''cache''"

text \<open>
  \<open>fs.writeFileSync\<close>: the file is replaced as a whole and stamped with the
  clock; the write is recorded.
\<close>

definition writeFileSync :: "string \<Rightarrow> file_content \<Rightarrow> world \<Rightarrow> world" where
  "writeFileSync p data w =
     emit (WriteFile p data) (w\<lparr>files := (files w)(p \<mapsto> \<lparr>mtimeMs = nowMs w, content = data\<rparr>)\<rparr>)"

definition sleep :: "int \<Rightarrow> world \<Rightarrow> world" where
  "sleep ms w = emit (Sleep ms) (w\<lparr>nowMs := nowMs w + max 0 ms\<rparr>)"

subsection \<open>Agent 2: the Investigator\<close>

definition systemPrompt :: string where
  "systemPrompt = ''You are a skeptical business investigator. Your job is to uncover corporate bias in news articles. You must respond in valid JSON.''"

definition userPrompt :: "NewsArticle \<Rightarrow> string" where
  "userPrompt article =
     ''\<newline>''
        @ ''          INVESTIGATION TASK:\<newline>''
        @ ''          Article Title: \"''
        @ title article
        @ ''\"\<newline>''
        @ ''          Source: \"''
        @ source article
        @ ''\"\<newline>''
        @ ''          Description: \"''
        @ description article
        @ ''\"\<newline>''
        @ ''          URL: ''
        @ url article
        @ ''\<newline>''
        @ ''\<newline>''
        @ ''          Analyze the article and return a JSON object with the following fields:\<newline>''
        @ ''          - \"summary\": A concise 2-sentence summary.\<newline>''
        @ ''          - \"seller_description\": What this organization actually sells based on source/description.\<newline>''
        @ ''          - \"hidden_motive\": Analysis of whether this promotes a business case for the source.\<newline>''
        @ ''          - \"motive_score\": An integer from 1-10 (10 = pure sales pitch).\<newline>''
        @ ''          - \"critique\": A 3-sentence skeptical critique.\<newline>''
        @ ''        ''"

definition promptHash :: "ext \<Rightarrow> NewsArticle \<Rightarrow> string" where
  "promptHash x article = md5_hex x (systemPrompt @ userPrompt article)"

text \<open>\<open>article.url || article.title\<close>: the title when the URL is empty.\<close>

definition articleHash :: "ext \<Rightarrow> NewsArticle \<Rightarrow> string" where
  "articleHash x article =
     md5_hex x ((if url article \<noteq> [] then url article else title article) @ promptHash x article)"

text \<open>
  The same key for an arbitrary prompt text in place of the two prompts above: the
  digest of the article's identity followed by the digest of the prompt text.
\<close>

definition cacheKey :: "ext \<Rightarrow> NewsArticle \<Rightarrow> string \<Rightarrow> string" where
  "cacheKey x article prompt =
     md5_hex x ((if url article \<noteq> [] then url article else title article) @ md5_hex x prompt)"

definition analysisCachePath :: "config \<Rightarrow> ext \<Rightarrow> NewsArticle \<Rightarrow> string" where
  "analysisCachePath c x article =
     path_join (CACHE_DIR c) (''analysis_'' @ articleHash x article @ ''.json'')"

text \<open>
  \<open>JSON.parse(fs.readFileSync(cachePath)).analysis\<close>: the stored analysis of an
  entry; a SyntaxError on text that is no JSON (a report is HTML); \<open>undefined\<close>
  on an array, which has no such property.
\<close>

fun cachedAnalysis :: "file_content \<Rightarrow> error + jsval" where
  "cachedAnalysis (AnalysisFile e) = Inr (entry_analysis e)"
| "cachedAnalysis (ArticleListFile xs) = Inr JUndefined"
| "cachedAnalysis (HtmlFile h) = Inl SyntaxError"
| "cachedAnalysis Unparseable = Inl SyntaxError"

text \<open>
  The \<open>try\<close> block around \<open>JSON.parse(completion.choices[0].message.content || "{}")\<close>:
  whatever is thrown inside is rethrown as the parse failure.
\<close>

definition parseAnalysis :: "ext \<Rightarrow> llm_reply \<Rightarrow> error + jsval" where
  "parseAnalysis x completion =
     (case message_content completion of
        Inl e \<Rightarrow> Inl AnalysisParseError
      | Inr text \<Rightarrow>
          (case JSON_parse x text of
             None \<Rightarrow> Inl AnalysisParseError
           | Some v \<Rightarrow> Inr v))"

definition analyzeMotive ::
  "config \<Rightarrow> ext \<Rightarrow> NewsArticle \<Rightarrow> world \<Rightarrow> (error + jsval \<times> bool) \<times> world" where
  "analyzeMotive c x article w =
     (let cachePath = analysisCachePath c x article in
      case files w cachePath of
        Some f \<Rightarrow>
          (let w1 = emit (Console (MsgUsingCached (title article))) w in
           case cachedAnalysis (content f) of
             Inl e \<Rightarrow> (Inl e, w1)
           | Inr a \<Rightarrow> (Inr (a, True), w1))
      | None \<Rightarrow>
          (let w1 = emit (Console (MsgRequestingLlm (title article))) w in
           case chat_create systemPrompt (userPrompt article) w1 of
             (Inl e, w2) \<Rightarrow> (Inl e, w2)
           | (Inr completion, w2) \<Rightarrow>
               (case parseAnalysis x completion of
                  Inl e \<Rightarrow> (Inl e, w2)
                | Inr analysisResult \<Rightarrow>
                    (let w3 = writeFileSync cachePath
                                (AnalysisFile \<lparr>entry_title = title article,
                                               entry_url = url article,
                                               entry_analysis = analysisResult,
                                               entry_timestamp = toISOString x (nowMs w2)\<rparr>) w2
                     in (Inr (analysisResult, False), w3)))))"

subsection \<open>Agent 1: the Scout\<close>

text \<open>
  The white-space class \<open>\s\<close> of JavaScript on the UTF-8 text of a string: the
  six ASCII characters (space, tab, line feed, vertical tab, form feed, carriage
  return) and the encodings of U+00A0, U+1680, U+2000 to U+200A, U+2028, U+2029,
  U+202F, U+205F, U+3000 and U+FEFF.  \<open>ws_len s\<close> is the number of bytes of the
  white-space character at the head of \<open>s\<close>, 0 when there is none.
\<close>

definition ascii_space :: "char \<Rightarrow> bool" where
  "ascii_space ch = (ch \<in> {CHR '' '', CHR 0x09, CHR 0x0A, CHR 0x0B, CHR 0x0C, CHR 0x0D})"

definition unicode_spaces :: "string list" where
  "unicode_spaces =
     [[CHR 0xC2, CHR 0xA0],
      [CHR 0xE1, CHR 0x9A, CHR 0x80],
      [CHR 0xE2, CHR 0x80, CHR 0x80], [CHR 0xE2, CHR 0x80, CHR 0x81],
      [CHR 0xE2, CHR 0x80, CHR 0x82], [CHR 0xE2, CHR 0x80, CHR 0x83],
      [CHR 0xE2, CHR 0x80, CHR 0x84], [CHR 0xE2, CHR 0x80, CHR 0x85],
      [CHR 0xE2, CHR 0x80, CHR 0x86], [CHR 0xE2, CHR 0x80, CHR 0x87],
      [CHR 0xE2, CHR 0x80, CHR 0x88], [CHR 0xE2, CHR 0x80, CHR 0x89],
      [CHR 0xE2, CHR 0x80, CHR 0x8A],
      [CHR 0xE2, CHR 0x80, CHR 0xA8], [CHR 0xE2, CHR 0x80, CHR 0xA9],
      [CHR 0xE2, CHR 0x80, CHR 0xAF],
      [CHR 0xE2, CHR 0x81, CHR 0x9F],
      [CHR 0xE3, CHR 0x80, CHR 0x80],
      [CHR 0xEF, CHR 0xBB, CHR 0xBF]]"

definition ws_len :: "string \<Rightarrow> nat" where
  "ws_len s =
     (case s of
        [] \<Rightarrow> 0
      | ch # cs \<Rightarrow>
          if ascii_space ch then 1
          else (case find (\<lambda>u. take (length u) s = u) unicode_spaces of
                  None \<Rightarrow> 0
                | Some u \<Rightarrow> length u))"

lemma ws_len_le: "ws_len s \<le> length s"
proof (cases s)
  case Nil
  then show ?thesis by (simp add: ws_len_def)
next
  case (Cons ch cs)
  have "length u \<le> length s" if "find (\<lambda>u. take (length u) s = u) unicode_spaces = Some u" for u
  proof -
    from that have "take (length u) s = u" by (auto simp: find_Some_iff)
    then have "length (take (length u) s) = length u" by simp
    then show ?thesis by simp
  qed
  with Cons show ?thesis
    by (auto simp: ws_len_def split: option.splits)
qed

text \<open>The rest of the text behind the run of white space at its head.\<close>

function skip_ws :: "string \<Rightarrow> string" where
  "skip_ws s = (if ws_len s = 0 then s else skip_ws (drop (ws_len s) s))"
  by pat_completeness auto
termination
proof (relation "measure length")
  fix s :: string
  assume "ws_len s \<noteq> 0"
  with ws_len_le [of s] have "0 < ws_len s" "s \<noteq> []" by auto
  then show "(drop (ws_len s) s, s) \<in> measure length" by simp
qed simp

declare skip_ws.simps [simp del]

lemma length_skip_ws: "length (skip_ws s) \<le> length s"
proof (induction s rule: skip_ws.induct)
  case (1 s)
  show ?case
  proof (cases "ws_len s = 0")
    case True
    then show ?thesis by (simp add: skip_ws.simps [of s])
  next
    case False
    from "1.IH" [OF False] show ?thesis
      using False by (simp add: skip_ws.simps [of s])
  qed
qed

lemma length_skip_ws_less: "ws_len s \<noteq> 0 \<Longrightarrow> length (skip_ws s) < length s"
proof -
  assume n: "ws_len s \<noteq> 0"
  with ws_len_le [of s] have "length (drop (ws_len s) s) < length s" by auto
  with length_skip_ws [of "drop (ws_len s) s"] n show ?thesis
    by (simp add: skip_ws.simps [of s])
qed

text \<open>\<open>topic.replace(/\s+/g, '_')\<close>: every maximal run of white space becomes one underscore.\<close>

function replace_ws :: "string \<Rightarrow> string" where
  "replace_ws [] = []"
| "replace_ws (ch # cs) =
     (if ws_len (ch # cs) = 0 then ch # replace_ws cs
      else CHR ''_'' # replace_ws (skip_ws (ch # cs)))"
  by pat_completeness auto
termination
proof (relation "measure length")
  fix ch :: char and cs :: string
  assume "ws_len (ch # cs) \<noteq> 0"
  then show "(skip_ws (ch # cs), ch # cs) \<in> measure length"
    using length_skip_ws_less [of "ch # cs"] by simp
qed simp_all

definition listCachePath :: "config \<Rightarrow> string \<Rightarrow> string" where
  "listCachePath c topic = path_join (CACHE_DIR c) (replace_ws topic @ ''.json'')"

definition CACHE_TTL :: int where
  "CACHE_TTL = 24 * 60 * 60 * 1000"

definition MAX_PAGES :: nat where
  "MAX_PAGES = 3"

text \<open>\<open>xs.slice(0, n)\<close>: a negative end counts from the end of the array.\<close>

definition slice0 :: "'a list \<Rightarrow> int \<Rightarrow> 'a list" where
  "slice0 xs n = (if n < 0 then take (nat (int (length xs) + n)) xs else take (nat n) xs)"

text \<open>
  Step 1 of \<open>fetchNews\<close>, the cache: \<open>Inr (Some articles)\<close> is the early
  return, \<open>Inr None\<close> falls through to the provider, \<open>Inl\<close> is the SyntaxError
  of \<open>JSON.parse\<close> on a fresh file that holds no JSON.  An analysis entry parses
  to an object, whose \<open>length\<close> is \<open>undefined\<close> and so not \<open>>=\<close> any number.
\<close>

definition readListCache ::
  "config \<Rightarrow> string \<Rightarrow> world \<Rightarrow> (error + NewsArticle list option) \<times> world" where
  "readListCache c topic w =
     (case files w (listCachePath c topic) of
        None \<Rightarrow> (Inr None, w)
      | Some stats \<Rightarrow>
          (let isFresh = (nowMs w - mtimeMs stats < CACHE_TTL) in
           if isFresh then
             (case content stats of
                ArticleListFile cachedData \<Rightarrow>
                  (if int (length cachedData) \<ge> newsMaxRequests c
                   then (Inr (Some (slice0 cachedData (newsMaxRequests c))),
                         emit (Console (MsgLoadingFromCache (newsMaxRequests c))) w)
                   else (Inr None,
                         emit (Console (MsgCacheTooSmall (Some (length cachedData)) (newsMaxRequests c))) w))
              | AnalysisFile e \<Rightarrow>
                  (Inr None, emit (Console (MsgCacheTooSmall None (newsMaxRequests c))) w)
              | HtmlFile h \<Rightarrow> (Inl SyntaxError, w)
              | Unparseable \<Rightarrow> (Inl SyntaxError, w))
           else (Inr None, w)))"

text \<open>\<open>axios.get\<close> on the news endpoint: the request is recorded, the next scripted reply consumed.\<close>

definition axios_get :: "string \<Rightarrow> string \<Rightarrow> nat \<Rightarrow> world \<Rightarrow> (error + news_reply) \<times> world" where
  "axios_get topic fromDate page w =
     (let w1 = emit (HttpGet topic fromDate page) w in
      case newsScript w1 of
        [] \<Rightarrow> (Inl HttpError, w1)
      | RequestFails # rs \<Rightarrow> (Inl HttpError, w1\<lparr>newsScript := rs\<rparr>)
      | r # rs \<Rightarrow> (Inr r, w1\<lparr>newsScript := rs\<rparr>))"

definition toArticle :: "RawArticle \<Rightarrow> NewsArticle" where
  "toArticle a =
     \<lparr>title = raw_title a, url = raw_url a, source = raw_source_name a,
      description = (case raw_description a of None \<Rightarrow> [] | Some d \<Rightarrow> d)\<rparr>"

text \<open>
  The \<open>for\<close> loop over one page.  The result is the error thrown out of the loop,
  if any, with the collected articles and the seen URLs as the loop left them.
\<close>

fun articleLoop ::
  "config \<Rightarrow> ext \<Rightarrow> RawArticle list \<Rightarrow> NewsArticle list \<Rightarrow> string set \<Rightarrow> world
     \<Rightarrow> (error option \<times> NewsArticle list \<times> string set) \<times> world" where
  "articleLoop c x [] collected seen w = ((None, collected, seen), w)"
| "articleLoop c x (a # rest) collected seen w =
     (if int (length collected) \<ge> newsMaxRequests c then ((None, collected, seen), w)
      else if raw_url a \<in> seen then articleLoop c x rest collected seen w
      else
        (let seen1 = insert (raw_url a) seen;
             article = toArticle a in
         case validateRelevance x article w of
           (Inl e, w1) \<Rightarrow> ((Some e, collected, seen1), w1)
         | (Inr isRelevant, w1) \<Rightarrow>
             (if isRelevant
              then articleLoop c x rest (collected @ [article]) seen1
                     (emit (Console (MsgRelevant (title article))) w1)
              else articleLoop c x rest collected seen1
                     (emit (Console (MsgSkipped (title article))) w1))))"

text \<open>The \<open>while\<close> loop over the pages; every exit by \<open>break\<close> returns what was collected.\<close>

function pageLoop ::
  "config \<Rightarrow> ext \<Rightarrow> string \<Rightarrow> string \<Rightarrow> nat \<Rightarrow> NewsArticle list \<Rightarrow> string set \<Rightarrow> world
     \<Rightarrow> NewsArticle list \<times> world" where
  "pageLoop c x topic fromDate page collected seen w =
     (if int (length collected) < newsMaxRequests c \<and> page \<le> MAX_PAGES then
        (case axios_get topic fromDate page (emit (Console (MsgFetchingPage page)) w) of
           (Inl e, w1) \<Rightarrow> (collected, emit (Console (MsgFetchPageError page)) w1)
         | (Inr RequestFails, w1) \<Rightarrow> (collected, emit (Console (MsgFetchPageError page)) w1)
         | (Inr NoArticlesField, w1) \<Rightarrow> (collected, emit (Console MsgNoMoreArticles) w1)
         | (Inr (Articles as), w1) \<Rightarrow>
             (if as = [] then (collected, emit (Console MsgNoMoreArticles) w1)
              else
                (case articleLoop c x as collected seen w1 of
                   ((Some e, collected1, seen1), w2) \<Rightarrow>
                     (collected1, emit (Console (MsgFetchPageError page)) w2)
                 | ((None, collected1, seen1), w2) \<Rightarrow>
                     pageLoop c x topic fromDate (page + 1) collected1 seen1 w2)))
      else (collected, w))"
  by pat_completeness auto
termination
  by (relation "measure (\<lambda>(c, x, topic, fromDate, page, collected, seen, w). Suc MAX_PAGES - page)") auto

declare pageLoop.simps [simp del]

text \<open>Steps 2 and 3 of \<open>fetchNews\<close>: the provider, then the cache update.\<close>

definition fetchFromProvider ::
  "config \<Rightarrow> ext \<Rightarrow> string \<Rightarrow> world \<Rightarrow> (error + NewsArticle list) \<times> world" where
  "fetchFromProvider c x topic w =
     (let w1 = emit (Console (MsgFetchingFromApi (newsMaxRequests c))) w;
          fromDate = takeWhile (\<lambda>ch. ch \<noteq> CHR ''T'') (toISOString x (minusDays x (nowMs w1) 7))
      in case pageLoop c x topic fromDate 1 [] {} w1 of
           (collectedArticles, w2) \<Rightarrow>
             (if collectedArticles = [] then (Inl NoRelevantArticles, w2)
              else (Inr collectedArticles,
                    writeFileSync (listCachePath c topic) (ArticleListFile collectedArticles) w2)))"

definition fetchNews ::
  "config \<Rightarrow> ext \<Rightarrow> string \<Rightarrow> world \<Rightarrow> (error + NewsArticle list) \<times> world" where
  "fetchNews c x topic w =
     (case readListCache c topic w of
        (Inl e, w1) \<Rightarrow> (Inl e, w1)
      | (Inr (Some cached), w1) \<Rightarrow> (Inr cached, w1)
      | (Inr None, w1) \<Rightarrow> fetchFromProvider c x topic w1)"

subsection \<open>The Reporter\<close>

record AnalysisResult =
  res_title :: string
  res_url :: string
  res_source :: string
  res_analysis :: jsval

text \<open>
  The three regular expressions of \<open>sanitizeHtml\<close> work on ASCII characters only
  (without the \<open>u\<close> flag, \<open>i\<close> never identifies a non-ASCII character with an
  ASCII one), so they are modelled on the bytes of the text.
\<close>

definition lower :: "char \<Rightarrow> char" where
  "lower ch = (if ch \<in> set ''ABCDEFGHIJKLMNOPQRSTUVWXYZ''
               then char_of (of_char ch + (32::nat)) else ch)"

definition is_word :: "char \<Rightarrow> bool" where
  "is_word ch = (ch \<in> set ''abcdefghijklmnopqrstuvwxyzABCDEFGHIJKLMNOPQRSTUVWXYZ0123456789_'')"

text \<open>The text starts with the pattern (given in lower case), letters compared without case.\<close>

definition ci_prefix :: "string \<Rightarrow> string \<Rightarrow> bool" where
  "ci_prefix pat s = (length pat \<le> length s \<and> map lower (take (length pat) s) = pat)"

text \<open>The offset of the first occurrence of the pattern, letters compared without case.\<close>

fun find_ci :: "string \<Rightarrow> string \<Rightarrow> nat option" where
  "find_ci pat [] = (if pat = [] then Some 0 else None)"
| "find_ci pat (ch # cs) =
     (if ci_prefix pat (ch # cs) then Some 0 else map_option Suc (find_ci pat cs))"

text \<open>
  A matcher gives the length of the match that starts at the head of the text, if
  there is one.

  \<open>/<script\b[^>]*>([\s\S]*?)<\/script>/gim\<close>: \<open><script\<close>, a character that is
  no word character, everything up to the first closing angle bracket, then
  everything up to and including the first closing script tag.
\<close>

definition match_script :: "string \<Rightarrow> nat option" where
  "match_script s =
     (if ci_prefix ''<script'' s then
        (case drop 7 s of
           [] \<Rightarrow> None
         | ch # r \<Rightarrow>
             if is_word ch then None
             else
               (case dropWhile (\<lambda>ch. ch \<noteq> CHR ''>'') (ch # r) of
                  [] \<Rightarrow> None
                | gt # body \<Rightarrow>
                    (case find_ci ''</script>'' body of
                       None \<Rightarrow> None
                     | Some k \<Rightarrow> Some (length s - length body + k + 9))))
      else None)"

text \<open>
  \<open>/on\w+="[^"]*"/g\<close>: \<open>on\<close> in lower case, one or more word characters, \<open>="\<close>,
  everything up to and including the next double quote.
\<close>

definition match_on :: "string \<Rightarrow> nat option" where
  "match_on s =
     (if take 2 s = ''on'' then
        (let r = dropWhile is_word (drop 2 s) in
         if takeWhile is_word (drop 2 s) = [] then None
         else if take 2 r = ''=\"'' then
           (case dropWhile (\<lambda>ch. ch \<noteq> CHR 0x22) (drop 2 r) of
              [] \<Rightarrow> None
            | q # rest \<Rightarrow> Some (length s - length rest))
         else None)
      else None)"

text \<open>\<open>/javascript:/gi\<close>.\<close>

definition match_javascript :: "string \<Rightarrow> nat option" where
  "match_javascript s = (if ci_prefix ''javascript:'' s then Some 11 else None)"

text \<open>
  \<open>s.replace(re, "")\<close> with the \<open>g\<close> flag: one pass from left to right; a match
  is dropped and the scan goes on behind it, otherwise the character is kept.
\<close>

function replace_all :: "(string \<Rightarrow> nat option) \<Rightarrow> string \<Rightarrow> string" where
  "replace_all m [] = []"
| "replace_all m (ch # cs) =
     (case m (ch # cs) of
        None \<Rightarrow> ch # replace_all m cs
      | Some n \<Rightarrow> replace_all m (drop (n - 1) cs))"
  by pat_completeness auto
termination
  by (relation "measure (\<lambda>(m, s). length s)") auto

definition sanitizeHtml :: "string \<Rightarrow> string" where
  "sanitizeHtml html =
     replace_all match_javascript (replace_all match_on (replace_all match_script html))"

definition css :: string where
  "css =
     ''\<newline>''
        @ ''    <style>\<newline>''
        @ ''      body { font-family: -apple-system, BlinkMacSystemFont, \"Segoe UI\", Roboto, Helvetica, Arial, sans-serif; line-height: 1.6; color: #333; max-width: 1200px; margin: 0 auto; padding: 20px; background-color: #f4f7f6; }\<newline>''
        @ ''      .header { text-align: center; margin-bottom: 30px; }\<newline>''
        @ ''      .period-badge { background: #34495e; color: white; padding: 5px 15px; border-radius: 20px; font-size: 0.9em; }\<newline>''
        @ ''      table { width: 100%; border-collapse: collapse; background: white; box-shadow: 0 1px 3px rgba(0,0,0,0.1); border-radius: 8px; overflow: hidden; }\<newline>''
        @ ''      th, td { padding: 15px; text-align: left; border-bottom: 1px solid #eee; vertical-align: top; }\<newline>''
        @ ''      th { background-color: #3498db; color: white; text-transform: uppercase; font-size: 13px; }\<newline>''
        @ ''      \<newline>''
        @ ''      /* Style the parsed Markdown content */\<newline>''
        @ ''      .analysis-content h1, .analysis-content h2 { font-size: 1.1em; margin-top: 0; }\<newline>''
        @ ''      .analysis-content p { margin: 0 0 10px 0; }\<newline>''
        @ ''      .analysis-content ul { padding-left: 20px; margin: 0; }\<newline>''
        @ ''      .analysis-content strong { color: #2c3e50; }\<newline>''
        @ ''      \<newline>''
        @ ''      .score-badge { display: inline-block; padding: 4px 12px; border-radius: 20px; font-weight: bold; color: white; min-width: 40px; text-align: center; }\<newline>''
        @ ''      .high-risk { background-color: #e74c3c; }\<newline>''
        @ ''      .med-risk { background-color: #f39c12; }\<newline>''
        @ ''      .low-risk { background-color: #27ae60; }\<newline>''
        @ ''      a { color: #3498db; text-decoration: none; }\<newline>''
        @ ''    </style>\<newline>''
        @ ''  ''"

text \<open>\<open>score >= k\<close> for \<open>score = motive_score ?? 0\<close>.\<close>

definition score_ge :: "ext \<Rightarrow> jsval \<Rightarrow> int \<Rightarrow> bool" where
  "score_ge x motive_score k =
     (case motive_score of
        JUndefined \<Rightarrow> 0 \<ge> k
      | JNull \<Rightarrow> 0 \<ge> k
      | JNum n \<Rightarrow> n \<ge> k
      | v \<Rightarrow> (case js_ToNumber x v of None \<Rightarrow> False | Some n \<Rightarrow> n \<ge> k))"

definition scoreClass :: "ext \<Rightarrow> jsval \<Rightarrow> string" where
  "scoreClass x motive_score =
     (if score_ge x motive_score 8 then ''high-risk''
      else if score_ge x motive_score 4 then ''med-risk''
      else ''low-risk'')"

definition badge :: "ext \<Rightarrow> jsval \<Rightarrow> string" where
  "badge x motive_score =
     (if motive_score \<noteq> JUndefined \<and> motive_score \<noteq> JNull then js_ToString x motive_score
      else ''N/A'')"

text \<open>\<open>sanitizeHtml(marked.parse(field) as string)\<close>.\<close>

definition renderField :: "ext \<Rightarrow> jsval \<Rightarrow> error + string" where
  "renderField x field =
     (case marked_parse x field of
        None \<Rightarrow> Inl MarkedError
      | Some html \<Rightarrow> Inr (sanitizeHtml html))"

definition formattedAnalysis :: "string \<Rightarrow> string \<Rightarrow> string \<Rightarrow> string \<Rightarrow> string" where
  "formattedAnalysis S1 S2 S3 S4 =
     ''\<newline>''
        @ ''      <p><strong>Summary:</strong> ''
        @ S1
        @ ''</p>\<newline>''
        @ ''      <p><strong>Seller Identity:</strong> ''
        @ S2
        @ ''</p>\<newline>''
        @ ''      <p><strong>Hidden Motive:</strong> ''
        @ S3
        @ ''</p>\<newline>''
        @ ''      <p><strong>Critique:</strong> <em>''
        @ S4
        @ ''</em></p>\<newline>''
        @ ''    ''"

definition rowHtml :: "AnalysisResult \<Rightarrow> string \<Rightarrow> string \<Rightarrow> string \<Rightarrow> string" where
  "rowHtml res analysisHtml scoreClassName badgeText =
     ''\<newline>''
        @ ''      <tr>\<newline>''
        @ ''        <td>\<newline>''
        @ ''          <strong>''
        @ res_title res
        @ ''</strong><br>\<newline>''
        @ ''          <small>Source: ''
        @ res_source res
        @ ''</small><br>\<newline>''
        @ ''          <small><a href=\"''
        @ res_url res
        @ ''\" target=\"_blank\">Read Article &rarr;</a></small>\<newline>''
        @ ''        </td>\<newline>''
        @ ''        <td class=\"analysis-content\">''
        @ analysisHtml
        @ ''</td>\<newline>''
        @ ''        <td><span class=\"score-badge ''
        @ scoreClassName
        @ ''\">''
        @ badgeText
        @ ''</span></td>\<newline>''
        @ ''      </tr>\<newline>''
        @ ''    ''"

text \<open>
  The callback of \<open>results.map\<close>.  Destructuring \<open>res.analysis\<close> throws a
  TypeError on \<open>null\<close> and \<open>undefined\<close>; the four fields are rendered in the
  order of the template.
\<close>

definition renderRow :: "ext \<Rightarrow> AnalysisResult \<Rightarrow> error + string" where
  "renderRow x res =
     bind_err (get_prop (res_analysis res) ''summary'') (\<lambda>summary.
     bind_err (get_prop (res_analysis res) ''seller_description'') (\<lambda>seller_description.
     bind_err (get_prop (res_analysis res) ''hidden_motive'') (\<lambda>hidden_motive.
     bind_err (get_prop (res_analysis res) ''motive_score'') (\<lambda>motive_score.
     bind_err (get_prop (res_analysis res) ''critique'') (\<lambda>critique.
     bind_err (renderField x summary) (\<lambda>S1.
     bind_err (renderField x seller_description) (\<lambda>S2.
     bind_err (renderField x hidden_motive) (\<lambda>S3.
     bind_err (renderField x critique) (\<lambda>S4.
       Inr (rowHtml res (formattedAnalysis S1 S2 S3 S4)
              (scoreClass x motive_score) (badge x motive_score)))))))))))"

text \<open>\<open>results.map(...).join('')\<close>: the first row that throws ends the rendering.\<close>

fun renderRows :: "ext \<Rightarrow> AnalysisResult list \<Rightarrow> error + string" where
  "renderRows x [] = Inr []"
| "renderRows x (res # rest) =
     (case renderRow x res of
        Inl e \<Rightarrow> Inl e
      | Inr row \<Rightarrow> (case renderRows x rest of Inl e \<Rightarrow> Inl e | Inr rows \<Rightarrow> Inr (row @ rows)))"

definition htmlContent :: "string \<Rightarrow> string \<Rightarrow> string" where
  "htmlContent periodString rows =
     ''\<newline>''
        @ ''    <!DOCTYPE html>\<newline>''
        @ ''    <html lang=\"en\">\<newline>''
        @ ''    <head>\<newline>''
        @ ''        <meta charset=\"UTF-8\">\<newline>''
        @ ''        <meta name=\"viewport\" content=\"width=device-width, initial-scale=1.0\">\<newline>''
        @ ''        <title>AI Hype-Watch: ''
        @ periodString
        @ ''</title>\<newline>''
        @ ''        ''
        @ css
        @ ''\<newline>''
        @ ''    </head>\<newline>''
        @ ''    <body>\<newline>''
        @ ''        <div class=\"header\">\<newline>''
        @ ''            <h1>''
        @ [CHR 0xF0, CHR 0x9F, CHR 0x95, CHR 0xB5]
        @ [CHR 0xEF, CHR 0xB8, CHR 0x8F]
        @ [CHR 0xE2, CHR 0x80, CHR 0x8D]
        @ [CHR 0xE2, CHR 0x99, CHR 0x82]
        @ [CHR 0xEF, CHR 0xB8, CHR 0x8F]
        @ '' AI Hype-Watch: Skeptical Investigator Report</h1>\<newline>''
        @ ''            <span class=\"period-badge\">Period: ''
        @ periodString
        @ ''</span>\<newline>''
        @ ''        </div>\<newline>''
        @ ''        <table>\<newline>''
        @ ''            <thead>\<newline>''
        @ ''                <tr>\<newline>''
        @ ''                    <th style=\"width: 25%\">Article & Source</th>\<newline>''
        @ ''                    <th style=\"width: 65%\">Investigation Findings</th>\<newline>''
        @ ''                    <th style=\"width: 10%\">Bias Score</th>\<newline>''
        @ ''                </tr>\<newline>''
        @ ''            </thead>\<newline>''
        @ ''            <tbody>\<newline>''
        @ ''                ''
        @ rows
        @ ''\<newline>''
        @ ''            </tbody>\<newline>''
        @ ''        </table>\<newline>''
        @ ''    </body>\<newline>''
        @ ''    </html>\<newline>''
        @ ''  ''"

text \<open>
  \<open>generateHTMLReport\<close>: reads the clock, creates the reports directory when it
  is missing, renders the rows (which may throw), writes the document and logs.
  It returns nothing.
\<close>

definition REPORTS_DIR :: "config \<Rightarrow> string" where
  "REPORTS_DIR c = path_join (cwd c) ''reports''"

definition mkdirIfMissing :: "string \<Rightarrow> world \<Rightarrow> world" where
  "mkdirIfMissing d w = (if d \<in> dirs w then w else emit (MkDir d) (w\<lparr>dirs := insert d (dirs w)\<rparr>))"

definition generateHTMLReport ::
  "config \<Rightarrow> ext \<Rightarrow> AnalysisResult list \<Rightarrow> world \<Rightarrow> (error + unit) \<times> world" where
  "generateHTMLReport c x results w =
     (let today = nowMs w;
          lastWeek = minusDays x today 7;
          dateTo = toLocaleDateString x today;
          dateFrom = toLocaleDateString x lastWeek;
          periodString = dateFrom @ '' to '' @ dateTo;
          w1 = mkdirIfMissing (REPORTS_DIR c) w;
          htmlPath = path_join (REPORTS_DIR c) (''report_'' @ dateTo @ ''.html'')
      in case renderRows x results of
           Inl e \<Rightarrow> (Inl e, w1)
         | Inr rows \<Rightarrow>
             (Inr (),
              emit (Console (MsgReportGenerated htmlPath))
                (writeFileSync htmlPath (HtmlFile (htmlContent periodString rows)) w1)))"

subsection \<open>The Orchestrator\<close>



definition mkResult :: "NewsArticle \<Rightarrow> jsval \<Rightarrow> AnalysisResult" where
  "mkResult article analysis =
     \<lparr>res_title = title article, res_url = url article, res_source = source article,
      res_analysis = analysis\<rparr>"

text \<open>
  The \<open>for\<close> loop of \<open>runMAS\<close> over \<open>articles.entries()\<close>, from index \<open>index\<close>
  on; \<open>len\<close> is \<open>articles.length\<close>.
\<close>

fun investigate ::
  "config \<Rightarrow> ext \<Rightarrow> nat \<Rightarrow> nat \<Rightarrow> NewsArticle list \<Rightarrow> AnalysisResult list \<Rightarrow> world
     \<Rightarrow> AnalysisResult list \<times> world" where
  "investigate c x len index [] finalResults w = (finalResults, w)"
| "investigate c x len index (article # rest) finalResults w =
     (case analyzeMotive c x article
             (emit (Console (MsgInvestigating (index + 1) len (title article))) w) of
        (Inl err, w1) \<Rightarrow>
          investigate c x len (index + 1) rest finalResults
            (emit (Console (MsgFailedToAnalyze (title article))) w1)
      | (Inr (analysis, fromCache), w1) \<Rightarrow>
          investigate c x len (index + 1) rest (finalResults @ [mkResult article analysis])
            (if \<not> fromCache \<and> int index < int len - 1
             then sleep (respectRPM c) (emit (Console (MsgWaiting (respectRPM c))) w1)
             else w1))"


definition topic :: string where
  "topic = ''AI business use cases''"


subsection \<open>Outcomes of a run of the Orchestrator's loop\<close>



subsection \<open>Concrete scenarios\<close>

text \<open>
  Stand-ins for the external functions, for running the program on concrete inputs:
  a parser that knows a handful of texts, a renderer that wraps a string in a
  paragraph and throws on anything else, a digest that keeps the first two
  characters, a fixed calendar.
\<close>

definition demo_analysis :: jsval where
  "demo_analysis =
     JObj [(''summary'', JStr ''s''), (''seller_description'', JStr ''d''),
           (''hidden_motive'', JStr ''h''), (''motive_score'', JNum 9), (''critique'', JStr ''c'')]"

definition demo_json :: "(string \<times> jsval) list" where
  "demo_json =
     [(''{}'', JObj []),
      (''null'', JNull),
      (''{\"is_business_case\": true}'', JObj [(''is_business_case'', JBool True)]),
      (''{\"is_business_case\": false}'', JObj [(''is_business_case'', JBool False)]),
      (''{\"is_business_case\": \"true\"}'', JObj [(''is_business_case'', JStr ''true'')]),
      (''{\"is_business_case\": 1}'', JObj [(''is_business_case'', JNum 1)]),
      (''ANALYSIS'', demo_analysis)]"

definition demo_marked :: "jsval \<Rightarrow> string option" where
  "demo_marked v = (case v of JStr s \<Rightarrow> Some (''<p>'' @ s @ ''</p>\<newline>'') | _ \<Rightarrow> None)"

definition demo_ext :: ext where
  "demo_ext =
     \<lparr>JSON_parse = map_of demo_json,
      marked_parse = demo_marked,
      md5_hex = take 2,
      toISOString = (\<lambda>t. ''2026-02-14T10:00:00.000Z''),
      toLocaleDateString = (\<lambda>t. if t < 0 then ''2026-02-07'' else ''2026-02-14''),
      minusDays = (\<lambda>t n. t - int n * 86400000),
      js_ToNumber = (\<lambda>v. None),
      js_ToString = (\<lambda>v. case v of JNum n \<Rightarrow> (if n = 9 then ''9'' else ''0'') | _ \<Rightarrow> [])\<rparr>"

definition demo_config :: config where
  "demo_config = \<lparr>cwd = ''/app'', newsMaxRequests = 5, newsBatchSize = 20, respectRPM = 4500\<rparr>"

definition demo_article :: "string \<Rightarrow> NewsArticle" where
  "demo_article u = \<lparr>title = u, url = u, source = ''src'', description = ''about''\<rparr>"

text \<open>A world with an empty disk at instant 0 in which the providers will give the scripted replies.\<close>

definition demo_world :: "llm_reply list \<Rightarrow> news_reply list \<Rightarrow> world" where
  "demo_world llm news =
     \<lparr>llmScript = llm, newsScript = news, files = Map.empty, dirs = {}, nowMs = 0, trace = []\<rparr>"

section \<open>Properties\<close>

subsection \<open>The concrete scenarios\<close>

lemma demo_parse_simps:
  "JSON_parse demo_ext ''not json'' = None"
  "JSON_parse demo_ext ''null'' = Some JNull"
  "JSON_parse demo_ext ''{}'' = Some (JObj [])"
  "JSON_parse demo_ext ''{\"is_business_case\": true}'' = Some (JObj [(''is_business_case'', JBool True)])"
  "JSON_parse demo_ext ''{\"is_business_case\": \"true\"}'' = Some (JObj [(''is_business_case'', JStr ''true'')])"
  "JSON_parse demo_ext ''{\"is_business_case\": 1}'' = Some (JObj [(''is_business_case'', JNum 1)])"
  "JSON_parse demo_ext ''ANALYSIS'' = Some demo_analysis"
  by (simp_all add: demo_ext_def demo_json_def)

lemma demo_ext_simps:
  "toISOString demo_ext t = ''2026-02-14T10:00:00.000Z''"
  "toLocaleDateString demo_ext t = (if t < 0 then ''2026-02-07'' else ''2026-02-14'')"
  "minusDays demo_ext t n = t - int n * 86400000"
  "marked_parse demo_ext = demo_marked"
  by (simp_all add: demo_ext_def)

lemma demo_world_simps:
  "llmScript (demo_world l n) = l" "newsScript (demo_world l n) = n"
  "files (demo_world l n) = Map.empty" "dirs (demo_world l n) = {}"
  "nowMs (demo_world l n) = 0" "trace (demo_world l n) = []"
  by (simp_all add: demo_world_def)


lemma demo_analysisCachePath:
  "analysisCachePath demo_config demo_ext (demo_article (a # b # u)) =
     ''/app/cache/analysis_'' @ [a, b] @ ''.json''"
  by (simp add: analysisCachePath_def articleHash_def CACHE_DIR_def path_join_def
      demo_config_def demo_ext_def demo_article_def)


lemma demo_listCachePath:
  "listCachePath (demo_config\<lparr>newsMaxRequests := n\<rparr>) topic = ''/app/cache/AI_business_use_cases.json''"
  by (simp add: listCachePath_def CACHE_DIR_def path_join_def demo_config_def topic_def
      ws_len_def ascii_space_def unicode_spaces_def skip_ws.simps)

lemma demo_renderRow:
  "renderRow demo_ext (mkResult (demo_article u) demo_analysis) =
     Inr (rowHtml (mkResult (demo_article u) demo_analysis)
            (formattedAnalysis (sanitizeHtml ''<p>s</p>\<newline>'') (sanitizeHtml ''<p>d</p>\<newline>'')
               (sanitizeHtml ''<p>h</p>\<newline>'') (sanitizeHtml ''<p>c</p>\<newline>''))
            ''high-risk'' ''9'')"
  by (simp add: renderRow_def mkResult_def demo_analysis_def renderField_def demo_ext_def
      demo_marked_def scoreClass_def score_ge_def badge_def)

subsection \<open>The Gatekeeper\<close>

lemma chat_create_cases:
  "chat_create sys usr w =
     (case llmScript w of
        [] \<Rightarrow> (Inl LlmCallError, emit (LlmRequest sys usr) w)
      | CallFails # rs \<Rightarrow> (Inl LlmCallError, (emit (LlmRequest sys usr) w)\<lparr>llmScript := rs\<rparr>)
      | r # rs \<Rightarrow> (Inr r, (emit (LlmRequest sys usr) w)\<lparr>llmScript := rs\<rparr>))"
  by (simp add: chat_create_def emit_def Let_def split: list.splits llm_reply.splits)

lemma validateRelevance_try_ok_iff:
  "fst (validateRelevance_try x article w) = Inr b \<longleftrightarrow>
     (\<exists>r rs t v u. llmScript w = r # rs \<and> message_content r = Inr t \<and>
        JSON_parse x t = Some v \<and> get_prop v ''is_business_case'' = Inr u \<and>
        b = (u = JBool True))"
  by (auto simp: validateRelevance_try_def chat_create_cases
      split: list.splits llm_reply.splits sum.splits option.splits prod.splits)

lemma validateRelevance_fst:
  "fst (validateRelevance x article w) =
     (case fst (validateRelevance_try x article w) of Inl e \<Rightarrow> Inr False | Inr b \<Rightarrow> Inr b)"
  by (simp add: validateRelevance_def split: prod.splits sum.splits)

text \<open>
  C5.  The Gatekeeper never throws, and it answers \<open>false\<close> (after logging the
  error) whenever the call fails (the call rejects, or the provider gives no
  reply), the completion is malformed (it has no message), the content is no JSON,
  or the parsed value is \<open>null\<close>, whose property cannot be read.
\<close>

theorem validateRelevance_fail_safe:
  "(\<forall>e. fst (validateRelevance x article w) \<noteq> Inl e) \<and>
   ((llmScript w = []
     \<or> (\<exists>rs. llmScript w = CallFails # rs)
     \<or> (\<exists>rs. llmScript w = NoMessage # rs)
     \<or> (\<exists>r rs t. llmScript w = r # rs \<and> message_content r = Inr t \<and> JSON_parse x t = None)
     \<or> (\<exists>r rs t v. llmScript w = r # rs \<and> message_content r = Inr t \<and>
            JSON_parse x t = Some v \<and> get_prop v ''is_business_case'' = Inl TypeError))
    \<longrightarrow> validateRelevance x article w =
          (Inr False, emit (Console (MsgGatekeeperError (title article)))
                        (snd (validateRelevance_try x article w))))"
proof -
  have a: "\<forall>e. fst (validateRelevance x article w) \<noteq> Inl e"
    by (simp add: validateRelevance_fst split: sum.splits)
  have b: "validateRelevance x article w =
          (Inr False, emit (Console (MsgGatekeeperError (title article)))
                        (snd (validateRelevance_try x article w)))"
    if "\<And>b. fst (validateRelevance_try x article w) \<noteq> Inr b"
    using that by (cases "validateRelevance_try x article w")
      (auto simp: validateRelevance_def split: sum.splits)
  show ?thesis
    using a b by (auto simp: validateRelevance_try_ok_iff)
qed


theorem validateRelevance_fail_safe_witness:
  "fst (validateRelevance demo_ext (demo_article ''u1'') (demo_world [] [])) = Inr False
   \<and> fst (validateRelevance demo_ext (demo_article ''u1'') (demo_world [CallFails] [])) = Inr False
   \<and> fst (validateRelevance demo_ext (demo_article ''u1'') (demo_world [NoMessage] [])) = Inr False
   \<and> fst (validateRelevance demo_ext (demo_article ''u1'') (demo_world [Content (Some ''not json'')] [])) = Inr False
   \<and> fst (validateRelevance demo_ext (demo_article ''u1'') (demo_world [Content (Some ''null'')] [])) = Inr False"
  using validateRelevance_fail_safe [of demo_ext "demo_article ''u1''" "demo_world [] []"]
    validateRelevance_fail_safe [of demo_ext "demo_article ''u1''" "demo_world [CallFails] []"]
    validateRelevance_fail_safe [of demo_ext "demo_article ''u1''" "demo_world [NoMessage] []"]
    validateRelevance_fail_safe [of demo_ext "demo_article ''u1''" "demo_world [Content (Some ''not json'')] []"]
    validateRelevance_fail_safe [of demo_ext "demo_article ''u1''" "demo_world [Content (Some ''null'')] []"]
  by (simp add: demo_world_def demo_parse_simps)

text \<open>
  C10.  The Gatekeeper answers \<open>true\<close> exactly when the call gives a completion
  whose content parses to an object whose member \<open>is_business_case\<close> is the
  boolean \<open>true\<close>; any other value of that member (the string \<open>"true"\<close>, the
  number 1, a missing member) gives \<open>false\<close>.
\<close>

theorem validateRelevance_true_iff:
  "(fst (validateRelevance x article w) = Inr True \<longleftrightarrow>
      (\<exists>r rs t kvs. llmScript w = r # rs \<and> message_content r = Inr t \<and>
         JSON_parse x t = Some (JObj kvs) \<and>
         map_of (rev kvs) ''is_business_case'' = Some (JBool True)))
   \<and> (\<forall>r rs t v u. llmScript w = r # rs \<and> message_content r = Inr t \<and>
         JSON_parse x t = Some v \<and> get_prop v ''is_business_case'' = Inr u \<and>
         u \<noteq> JBool True \<longrightarrow> fst (validateRelevance x article w) = Inr False)"
proof -
  have g: "get_prop v k = Inr (JBool True) \<longleftrightarrow>
      (\<exists>kvs. v = JObj kvs \<and> map_of (rev kvs) k = Some (JBool True))" for v k
    by (cases v) (auto split: option.splits)
  have t: "fst (validateRelevance x article w) = Inr b \<longleftrightarrow>
      (if b then fst (validateRelevance_try x article w) = Inr True
       else fst (validateRelevance_try x article w) \<noteq> Inr True)" for b
    by (auto simp: validateRelevance_fst split: sum.splits)
  show ?thesis
    unfolding t by (auto simp: validateRelevance_try_ok_iff g [symmetric])
qed

theorem validateRelevance_true_iff_witness:
  "fst (validateRelevance demo_ext (demo_article ''u1'')
          (demo_world [Content (Some ''{\"is_business_case\": true}'')] [])) = Inr True
   \<and> fst (validateRelevance demo_ext (demo_article ''u1'')
          (demo_world [Content (Some ''{\"is_business_case\": \"true\"}'')] [])) = Inr False
   \<and> fst (validateRelevance demo_ext (demo_article ''u1'')
          (demo_world [Content (Some ''{\"is_business_case\": 1}'')] [])) = Inr False
   \<and> fst (validateRelevance demo_ext (demo_article ''u1'')
          (demo_world [Content None] [])) = Inr False"
  using validateRelevance_true_iff [of demo_ext "demo_article ''u1''"
          "demo_world [Content (Some ''{\"is_business_case\": true}'')] []"]
    validateRelevance_true_iff [of demo_ext "demo_article ''u1''"
          "demo_world [Content (Some ''{\"is_business_case\": \"true\"}'')] []"]
    validateRelevance_true_iff [of demo_ext "demo_article ''u1''"
          "demo_world [Content (Some ''{\"is_business_case\": 1}'')] []"]
    validateRelevance_true_iff [of demo_ext "demo_article ''u1''" "demo_world [Content None] []"]
  by (simp add: demo_world_def demo_parse_simps)


subsection \<open>The Investigator\<close>

lemma analyzeMotive_hit:
  assumes "files w (analysisCachePath c x article) = Some f"
  shows "analyzeMotive c x article w =
     (case cachedAnalysis (content f) of Inl e \<Rightarrow> Inl e | Inr a \<Rightarrow> Inr (a, True),
      emit (Console (MsgUsingCached (title article))) w)"
  using assms by (simp add: analyzeMotive_def Let_def split: sum.splits)

lemma analyzeMotive_miss:
  assumes "files w (analysisCachePath c x article) = None"
  shows "analyzeMotive c x article w =
     (case chat_create systemPrompt (userPrompt article)
             (emit (Console (MsgRequestingLlm (title article))) w) of
        (Inl e, w2) \<Rightarrow> (Inl e, w2)
      | (Inr completion, w2) \<Rightarrow>
          (case parseAnalysis x completion of
             Inl e \<Rightarrow> (Inl e, w2)
           | Inr v \<Rightarrow>
               (Inr (v, False),
                writeFileSync (analysisCachePath c x article)
                  (AnalysisFile \<lparr>entry_title = title article, entry_url = url article,
                     entry_analysis = v, entry_timestamp = toISOString x (nowMs w2)\<rparr>) w2)))"
  using assms by (simp add: analyzeMotive_def Let_def split: sum.splits prod.splits)

lemma emit_simps [simp]:
  "files (emit e w) = files w" "llmScript (emit e w) = llmScript w"
  "newsScript (emit e w) = newsScript w" "dirs (emit e w) = dirs w"
  "nowMs (emit e w) = nowMs w" "trace (emit e w) = trace w @ [e]"
  by (simp_all add: emit_def)

text \<open>
  C2.  On a cache hit the Investigator only logs: the model is not called, nothing
  is written, and the world is otherwise as before; a stored entry gives its
  analysis with \<open>fromCache = true\<close>, and the Orchestrator goes on to the next
  article without a pause.  On a miss, a returned result has \<open>fromCache = false\<close>
  and the last thing done before returning is the write of
  \<open>{title, url, analysis, timestamp}\<close> to the cache, right after the model call.
\<close>

theorem analyzeMotive_cache_protocol:
  "(\<forall>f. files w (analysisCachePath c x article) = Some f \<longrightarrow>
      snd (analyzeMotive c x article w) = emit (Console (MsgUsingCached (title article))) w
      \<and> (\<forall>e. content f = AnalysisFile e \<longrightarrow>
            fst (analyzeMotive c x article w) = Inr (entry_analysis e, True)
            \<and> investigate c x len index (article # rest) finalResults w =
                investigate c x len (index + 1) rest
                  (finalResults @ [mkResult article (entry_analysis e)])
                  (emit (Console (MsgUsingCached (title article)))
                     (emit (Console (MsgInvestigating (index + 1) len (title article))) w))))
   \<and> (files w (analysisCachePath c x article) = None \<longrightarrow>
        (\<forall>v fromCache. fst (analyzeMotive c x article w) = Inr (v, fromCache) \<longrightarrow>
           fromCache = False
           \<and> (\<exists>r rs w2. llmScript w = r # rs \<and> parseAnalysis x r = Inr v
                \<and> w2 = (emit (LlmRequest systemPrompt (userPrompt article))
                          (emit (Console (MsgRequestingLlm (title article))) w))\<lparr>llmScript := rs\<rparr>
                \<and> snd (analyzeMotive c x article w) =
                    writeFileSync (analysisCachePath c x article)
                      (AnalysisFile \<lparr>entry_title = title article, entry_url = url article,
                         entry_analysis = v, entry_timestamp = toISOString x (nowMs w)\<rparr>) w2)))"
proof -
  have hit: "snd (analyzeMotive c x article w) = emit (Console (MsgUsingCached (title article))) w"
    if "files w (analysisCachePath c x article) = Some f" for f
    by (simp add: analyzeMotive_hit [OF that])
  have hit_entry: "fst (analyzeMotive c x article w) = Inr (entry_analysis e, True)"
    if "files w (analysisCachePath c x article) = Some f" "content f = AnalysisFile e" for f e
    using that by (simp add: analyzeMotive_hit [OF that(1)])
  have hit_loop: "investigate c x len index (article # rest) finalResults w =
                investigate c x len (index + 1) rest
                  (finalResults @ [mkResult article (entry_analysis e)])
                  (emit (Console (MsgUsingCached (title article)))
                     (emit (Console (MsgInvestigating (index + 1) len (title article))) w))"
    if "files w (analysisCachePath c x article) = Some f" "content f = AnalysisFile e" for f e
  proof -
    let ?w = "emit (Console (MsgInvestigating (index + 1) len (title article))) w"
    have "files ?w (analysisCachePath c x article) = Some f" using that by simp
    from analyzeMotive_hit [OF this] that(2) show ?thesis by simp
  qed
  have miss: "fromCache = False
           \<and> (\<exists>r rs w2. llmScript w = r # rs \<and> parseAnalysis x r = Inr v
                \<and> w2 = (emit (LlmRequest systemPrompt (userPrompt article))
                          (emit (Console (MsgRequestingLlm (title article))) w))\<lparr>llmScript := rs\<rparr>
                \<and> snd (analyzeMotive c x article w) =
                    writeFileSync (analysisCachePath c x article)
                      (AnalysisFile \<lparr>entry_title = title article, entry_url = url article,
                         entry_analysis = v, entry_timestamp = toISOString x (nowMs w)\<rparr>) w2)"
    if "files w (analysisCachePath c x article) = None"
       "fst (analyzeMotive c x article w) = Inr (v, fromCache)" for v fromCache
    using that(2) unfolding analyzeMotive_miss [OF that(1)] chat_create_cases
    by (auto split: list.splits llm_reply.splits sum.splits)
  show ?thesis
    using hit hit_entry hit_loop miss by blast
qed

theorem analyzeMotive_cache_protocol_witness:
  "analyzeMotive demo_config demo_ext (demo_article ''u1'')
      ((demo_world [] [])\<lparr>files :=
        [''/app/cache/analysis_u1.json'' \<mapsto>
           \<lparr>mtimeMs = 0, content = AnalysisFile \<lparr>entry_title = ''u1'', entry_url = ''u1'',
              entry_analysis = demo_analysis, entry_timestamp = ''t''\<rparr>\<rparr>]\<rparr>)
    = (Inr (demo_analysis, True),
       (demo_world [] [])\<lparr>files :=
        [''/app/cache/analysis_u1.json'' \<mapsto>
           \<lparr>mtimeMs = 0, content = AnalysisFile \<lparr>entry_title = ''u1'', entry_url = ''u1'',
              entry_analysis = demo_analysis, entry_timestamp = ''t''\<rparr>\<rparr>],
          trace := [Console (MsgUsingCached ''u1'')]\<rparr>)
   \<and> fst (analyzeMotive demo_config demo_ext (demo_article ''u1'')
           (demo_world [Content (Some ''ANALYSIS'')] [])) = Inr (demo_analysis, False)
   \<and> trace (snd (analyzeMotive demo_config demo_ext (demo_article ''u1'')
           (demo_world [Content (Some ''ANALYSIS'')] []))) =
       [Console (MsgRequestingLlm ''u1''),
        LlmRequest systemPrompt (userPrompt (demo_article ''u1'')),
        WriteFile ''/app/cache/analysis_u1.json''
          (AnalysisFile \<lparr>entry_title = ''u1'', entry_url = ''u1'',
              entry_analysis = demo_analysis, entry_timestamp = ''2026-02-14T10:00:00.000Z''\<rparr>)]"
proof -
  let ?a = "demo_article ''u1''"
  let ?hit = "(demo_world [] [])\<lparr>files :=
        [''/app/cache/analysis_u1.json'' \<mapsto>
           \<lparr>mtimeMs = 0, content = AnalysisFile \<lparr>entry_title = ''u1'', entry_url = ''u1'',
              entry_analysis = demo_analysis, entry_timestamp = ''t''\<rparr>\<rparr>]\<rparr>"
  let ?miss = "demo_world [Content (Some ''ANALYSIS'')] []"
  have p: "analysisCachePath demo_config demo_ext ?a = ''/app/cache/analysis_u1.json''"
    by (simp add: demo_analysisCachePath)
  have h: "files ?hit (analysisCachePath demo_config demo_ext ?a) =
      Some \<lparr>mtimeMs = 0, content = AnalysisFile \<lparr>entry_title = ''u1'', entry_url = ''u1'',
              entry_analysis = demo_analysis, entry_timestamp = ''t''\<rparr>\<rparr>"
    unfolding p by simp
  have m: "files ?miss (analysisCachePath demo_config demo_ext ?a) = None"
    by (simp add: demo_world_def)
  have r: "fst (analyzeMotive demo_config demo_ext ?a ?miss) = Inr (demo_analysis, False)"
    by (simp add: analyzeMotive_miss [OF m] chat_create_cases demo_world_simps parseAnalysis_def
        demo_parse_simps)
  from analyzeMotive_cache_protocol [of ?hit demo_config demo_ext ?a 1 0 "[]" "[]"] h
  have 1: "analyzeMotive demo_config demo_ext ?a ?hit =
      (Inr (demo_analysis, True), emit (Console (MsgUsingCached (title ?a))) ?hit)"
    by (simp add: prod_eq_iff)
  from analyzeMotive_cache_protocol [of ?miss demo_config demo_ext ?a 1 0 "[]" "[]",
      THEN conjunct2, rule_format, OF m r]
  obtain r0 rs where s: "llmScript ?miss = r0 # rs"
    and w: "snd (analyzeMotive demo_config demo_ext ?a ?miss) =
      writeFileSync (analysisCachePath demo_config demo_ext ?a)
        (AnalysisFile \<lparr>entry_title = title ?a, entry_url = url ?a,
           entry_analysis = demo_analysis, entry_timestamp = toISOString demo_ext (nowMs ?miss)\<rparr>)
        ((emit (LlmRequest systemPrompt (userPrompt ?a))
            (emit (Console (MsgRequestingLlm (title ?a))) ?miss))\<lparr>llmScript := rs\<rparr>)"
    by blast
  from s have rs: "rs = []" by (simp add: demo_world_simps)
  note 2 = w [unfolded rs]
  show ?thesis
    unfolding 1 2 r p
    by (simp add: emit_def writeFileSync_def demo_world_def demo_article_def demo_ext_def)
qed

text \<open>
  C6, as the code has it.  On a cache miss, a completion whose content is not empty
  and is no JSON makes the Investigator throw: no analysis is returned in its
  place, no file is written, and the Orchestrator records no result for the
  article.  An empty or \<open>null\<close> content is replaced by the text \<open>{}\<close> before
  it is parsed: what \<open>{}\<close> parses to is returned as the analysis and written to
  the cache.
\<close>

theorem analyzeMotive_parse_error_fatal:
  "(\<forall>s rs. files w (analysisCachePath c x article) = None \<and>
        llmScript w = Content (Some s) # rs \<and> s \<noteq> [] \<and> JSON_parse x s = None \<longrightarrow>
        analyzeMotive c x article w =
          (Inl AnalysisParseError,
           (emit (LlmRequest systemPrompt (userPrompt article))
              (emit (Console (MsgRequestingLlm (title article))) w))\<lparr>llmScript := rs\<rparr>)
        \<and> files (snd (analyzeMotive c x article w)) = files w
        \<and> investigate c x len index (article # rest) finalResults w =
            investigate c x len (index + 1) rest finalResults
              (emit (Console (MsgFailedToAnalyze (title article)))
                ((emit (LlmRequest systemPrompt (userPrompt article))
                   (emit (Console (MsgRequestingLlm (title article)))
                     (emit (Console (MsgInvestigating (index + 1) len (title article))) w)))
                 \<lparr>llmScript := rs\<rparr>)))
   \<and> (\<forall>reply rs v. files w (analysisCachePath c x article) = None \<and>
        llmScript w = Content reply # rs \<and> (reply = None \<or> reply = Some []) \<and>
        JSON_parse x ''{}'' = Some v \<longrightarrow>
        analyzeMotive c x article w =
          (Inr (v, False),
           writeFileSync (analysisCachePath c x article)
             (AnalysisFile \<lparr>entry_title = title article, entry_url = url article,
                entry_analysis = v, entry_timestamp = toISOString x (nowMs w)\<rparr>)
             ((emit (LlmRequest systemPrompt (userPrompt article))
                (emit (Console (MsgRequestingLlm (title article))) w))\<lparr>llmScript := rs\<rparr>)))"
proof -
  have fatal: "analyzeMotive c x article w =
          (Inl AnalysisParseError,
           (emit (LlmRequest systemPrompt (userPrompt article))
              (emit (Console (MsgRequestingLlm (title article))) w))\<lparr>llmScript := rs\<rparr>)
        \<and> files (snd (analyzeMotive c x article w)) = files w
        \<and> investigate c x len index (article # rest) finalResults w =
            investigate c x len (index + 1) rest finalResults
              (emit (Console (MsgFailedToAnalyze (title article)))
                ((emit (LlmRequest systemPrompt (userPrompt article))
                   (emit (Console (MsgRequestingLlm (title article)))
                     (emit (Console (MsgInvestigating (index + 1) len (title article))) w)))
                 \<lparr>llmScript := rs\<rparr>))"
    if miss: "files w (analysisCachePath c x article) = None"
      and script: "llmScript w = Content (Some s) # rs" and ne: "s \<noteq> []"
      and bad: "JSON_parse x s = None" for s rs
  proof -
    have pa: "parseAnalysis x (Content (Some s)) = Inl AnalysisParseError"
      using ne bad by (simp add: parseAnalysis_def)
    have run: "analyzeMotive c x article w' =
           (Inl AnalysisParseError,
            (emit (LlmRequest systemPrompt (userPrompt article))
               (emit (Console (MsgRequestingLlm (title article))) w'))\<lparr>llmScript := rs\<rparr>)"
      if "files w' = files w" "llmScript w' = llmScript w" for w'
      using that miss script pa by (simp add: analyzeMotive_miss chat_create_cases)
    have a: "analyzeMotive c x article w =
           (Inl AnalysisParseError,
            (emit (LlmRequest systemPrompt (userPrompt article))
               (emit (Console (MsgRequestingLlm (title article))) w))\<lparr>llmScript := rs\<rparr>)"
      by (rule run) simp_all
    have b: "files (snd (analyzeMotive c x article w)) = files w"
      unfolding a by simp
    have c: "investigate c x len index (article # rest) finalResults w =
             investigate c x len (index + 1) rest finalResults
               (emit (Console (MsgFailedToAnalyze (title article)))
                 ((emit (LlmRequest systemPrompt (userPrompt article))
                    (emit (Console (MsgRequestingLlm (title article)))
                      (emit (Console (MsgInvestigating (index + 1) len (title article))) w)))
                  \<lparr>llmScript := rs\<rparr>))"
      by (simp add: run)
    show ?thesis using a b c by blast
  qed
  have default: "analyzeMotive c x article w =
          (Inr (v, False),
           writeFileSync (analysisCachePath c x article)
             (AnalysisFile \<lparr>entry_title = title article, entry_url = url article,
                entry_analysis = v, entry_timestamp = toISOString x (nowMs w)\<rparr>)
             ((emit (LlmRequest systemPrompt (userPrompt article))
                (emit (Console (MsgRequestingLlm (title article))) w))\<lparr>llmScript := rs\<rparr>))"
    if miss: "files w (analysisCachePath c x article) = None"
      and script: "llmScript w = Content reply # rs" and empty: "reply = None \<or> reply = Some []"
      and ok: "JSON_parse x ''{}'' = Some v" for reply rs v
  proof -
    have "parseAnalysis x (Content reply) = Inr v"
      using empty ok by (auto simp: parseAnalysis_def)
    then show ?thesis
      using miss script by (simp add: analyzeMotive_miss chat_create_cases)
  qed
  show ?thesis
    using fatal default by blast
qed

text \<open>
  C6, as stated, fails: the empty content is no JSON, yet the Investigator returns
  the empty object as the analysis of the article and writes it to the cache.
\<close>

theorem empty_reply_is_defaulted_and_cached:
  "JSON_parse demo_ext [] = None
   \<and> fst (analyzeMotive demo_config demo_ext (demo_article ''u1'')
          (demo_world [Content (Some [])] [])) = Inr (JObj [], False)
   \<and> map_option content
        (files (snd (analyzeMotive demo_config demo_ext (demo_article ''u1'')
                  (demo_world [Content (Some [])] [])))
           ''/app/cache/analysis_u1.json'')
       = Some (AnalysisFile \<lparr>entry_title = ''u1'', entry_url = ''u1'', entry_analysis = JObj [],
                 entry_timestamp = ''2026-02-14T10:00:00.000Z''\<rparr>)"
proof -
  have m: "files (demo_world [Content (Some [])] [])
      (analysisCachePath demo_config demo_ext (demo_article ''u1'')) = None"
    by (simp add: demo_world_simps)
  have p: "analysisCachePath demo_config demo_ext (demo_article ''u1'') = ''/app/cache/analysis_u1.json''"
    by (simp add: demo_analysisCachePath)
  have "JSON_parse demo_ext [] = None"
    by (simp add: demo_ext_def demo_json_def)
  moreover have "analyzeMotive demo_config demo_ext (demo_article ''u1'')
      (demo_world [Content (Some [])] []) =
      (Inr (JObj [], False),
       writeFileSync ''/app/cache/analysis_u1.json''
         (AnalysisFile \<lparr>entry_title = ''u1'', entry_url = ''u1'', entry_analysis = JObj [],
            entry_timestamp = ''2026-02-14T10:00:00.000Z''\<rparr>)
         ((emit (LlmRequest systemPrompt (userPrompt (demo_article ''u1'')))
            (emit (Console (MsgRequestingLlm ''u1'')) (demo_world [Content (Some [])] [])))
          \<lparr>llmScript := []\<rparr>))"
    unfolding analyzeMotive_miss [OF m] p
    by (simp add: chat_create_cases demo_world_simps parseAnalysis_def demo_parse_simps
        demo_ext_simps demo_article_def)
  ultimately show ?thesis
    by (simp add: writeFileSync_def)
qed

theorem analyzeMotive_parse_error_fatal_witness:
  "fst (analyzeMotive demo_config demo_ext (demo_article ''u1'')
          (demo_world [Content (Some ''not json'')] [])) = Inl AnalysisParseError
   \<and> files (snd (analyzeMotive demo_config demo_ext (demo_article ''u1'')
          (demo_world [Content (Some ''not json'')] []))) = Map.empty
   \<and> fst (investigate demo_config demo_ext 1 0 [demo_article ''u1''] []
          (demo_world [Content (Some ''not json'')] [])) = []
   \<and> fst (analyzeMotive demo_config demo_ext (demo_article ''u1'')
          (demo_world [Content None] [])) = Inr (JObj [], False)"
proof -
  let ?w = "demo_world [Content (Some ''not json'')] []"
  let ?e = "demo_world [Content None] []"
  have h: "files ?w (analysisCachePath demo_config demo_ext (demo_article ''u1'')) = None \<and>
      llmScript ?w = Content (Some ''not json'') # [] \<and> ''not json'' \<noteq> [] \<and>
      JSON_parse demo_ext ''not json'' = None"
    by (simp add: demo_world_simps demo_parse_simps)
  have g: "files ?e (analysisCachePath demo_config demo_ext (demo_article ''u1'')) = None \<and>
      llmScript ?e = Content None # [] \<and> (None = None \<or> None = Some []) \<and>
      JSON_parse demo_ext ''{}'' = Some (JObj [])"
    by (simp add: demo_world_simps demo_parse_simps)
  note t = analyzeMotive_parse_error_fatal
  from t [of ?w demo_config demo_ext "demo_article ''u1''" 1 0 "[]" "[]",
      THEN conjunct1, rule_format, OF h]
    t [of ?e demo_config demo_ext "demo_article ''u1''" 1 0 "[]" "[]",
      THEN conjunct2, rule_format, OF g]
  show ?thesis by (simp add: demo_world_simps)
qed


subsection \<open>The Scout\<close>

lemma readListCache_cases:
  "readListCache c tp w =
     (case files w (listCachePath c tp) of
        None \<Rightarrow> (Inr None, w)
      | Some f \<Rightarrow>
          if nowMs w - mtimeMs f < CACHE_TTL then
            (case content f of
               ArticleListFile xs \<Rightarrow>
                 if newsMaxRequests c \<le> int (length xs)
                 then (Inr (Some (slice0 xs (newsMaxRequests c))),
                       emit (Console (MsgLoadingFromCache (newsMaxRequests c))) w)
                 else (Inr None,
                       emit (Console (MsgCacheTooSmall (Some (length xs)) (newsMaxRequests c))) w)
             | AnalysisFile e \<Rightarrow> (Inr None, emit (Console (MsgCacheTooSmall None (newsMaxRequests c))) w)
             | HtmlFile h \<Rightarrow> (Inl SyntaxError, w)
             | Unparseable \<Rightarrow> (Inl SyntaxError, w))
          else (Inr None, w))"
  by (simp add: readListCache_def Let_def split: option.splits file_content.splits)

text \<open>
  The provider path reads the scripted replies and the clock only: two worlds that
  agree on them give the same articles.
\<close>

lemma chat_create_env:
  assumes "llmScript w' = llmScript w" "newsScript w' = newsScript w" "nowMs w' = nowMs w"
  shows "fst (chat_create s u w') = fst (chat_create s u w)
       \<and> llmScript (snd (chat_create s u w')) = llmScript (snd (chat_create s u w))
       \<and> newsScript (snd (chat_create s u w')) = newsScript (snd (chat_create s u w))
       \<and> nowMs (snd (chat_create s u w')) = nowMs (snd (chat_create s u w))"
  using assms by (simp add: chat_create_cases split: list.splits llm_reply.splits)

lemma validateRelevance_try_env:
  assumes "llmScript w' = llmScript w" "newsScript w' = newsScript w" "nowMs w' = nowMs w"
  shows "fst (validateRelevance_try x a w') = fst (validateRelevance_try x a w)
       \<and> llmScript (snd (validateRelevance_try x a w')) = llmScript (snd (validateRelevance_try x a w))
       \<and> newsScript (snd (validateRelevance_try x a w')) = newsScript (snd (validateRelevance_try x a w))
       \<and> nowMs (snd (validateRelevance_try x a w')) = nowMs (snd (validateRelevance_try x a w))"
  using chat_create_env [OF assms, of gatekeeperSystem "gatekeeperUser a"]
  by (auto simp: validateRelevance_try_def split: prod.splits sum.splits option.splits)

lemma validateRelevance_env:
  assumes "llmScript w' = llmScript w" "newsScript w' = newsScript w" "nowMs w' = nowMs w"
  shows "fst (validateRelevance x a w') = fst (validateRelevance x a w)
       \<and> llmScript (snd (validateRelevance x a w')) = llmScript (snd (validateRelevance x a w))
       \<and> newsScript (snd (validateRelevance x a w')) = newsScript (snd (validateRelevance x a w))
       \<and> nowMs (snd (validateRelevance x a w')) = nowMs (snd (validateRelevance x a w))"
  using validateRelevance_try_env [OF assms, of x a]
  by (auto simp: validateRelevance_def split: prod.splits sum.splits)

lemma axios_get_env:
  assumes "llmScript w' = llmScript w" "newsScript w' = newsScript w" "nowMs w' = nowMs w"
  shows "fst (axios_get t d p w') = fst (axios_get t d p w)
       \<and> llmScript (snd (axios_get t d p w')) = llmScript (snd (axios_get t d p w))
       \<and> newsScript (snd (axios_get t d p w')) = newsScript (snd (axios_get t d p w))
       \<and> nowMs (snd (axios_get t d p w')) = nowMs (snd (axios_get t d p w))"
  using assms by (simp add: axios_get_def Let_def split: list.splits news_reply.splits)

lemma articleLoop_env:
  assumes "llmScript w' = llmScript w" "newsScript w' = newsScript w" "nowMs w' = nowMs w"
  shows "fst (articleLoop c x as col seen w') = fst (articleLoop c x as col seen w)
       \<and> llmScript (snd (articleLoop c x as col seen w')) = llmScript (snd (articleLoop c x as col seen w))
       \<and> newsScript (snd (articleLoop c x as col seen w')) = newsScript (snd (articleLoop c x as col seen w))
       \<and> nowMs (snd (articleLoop c x as col seen w')) = nowMs (snd (articleLoop c x as col seen w))"
  using assms
proof (induction as arbitrary: col seen w w')
  case Nil
  then show ?case by simp
next
  case (Cons a as)
  let ?v' = "validateRelevance x (toArticle a) w'"
  let ?v = "validateRelevance x (toArticle a) w"
  note v = validateRelevance_env [OF Cons.prems, of x "toArticle a"]
  show ?case
  proof (cases "newsMaxRequests c \<le> int (length col)")
    case True
    then show ?thesis using Cons.prems by simp
  next
    case full: False
    show ?thesis
    proof (cases "raw_url a \<in> seen")
      case True
      then show ?thesis using full Cons.IH [OF Cons.prems] by simp
    next
      case False
      obtain r w1 where r: "?v = (r, w1)" by (cases ?v)
      obtain r' w1' where r': "?v' = (r', w1')" by (cases ?v')
      from v r r' have eq: "r' = r" "llmScript w1' = llmScript w1"
        "newsScript w1' = newsScript w1" "nowMs w1' = nowMs w1" by simp_all
      show ?thesis
      proof (cases r)
        case (Inl e)
        then show ?thesis using full False r r' eq by (simp add: Let_def)
      next
        case (Inr b)
        have e: "llmScript (emit ev w1') = llmScript (emit ev w1)"
          "newsScript (emit ev w1') = newsScript (emit ev w1)"
          "nowMs (emit ev w1') = nowMs (emit ev w1)" for ev
          using eq by simp_all
        show ?thesis
          using full False r r' eq(1) Inr Cons.IH [OF e]
          by (simp add: Let_def)
      qed
    qed
  qed
qed

lemma pageLoop_env:
  assumes "llmScript w' = llmScript w" "newsScript w' = newsScript w" "nowMs w' = nowMs w"
  shows "fst (pageLoop c x t d page col seen w') = fst (pageLoop c x t d page col seen w)
       \<and> llmScript (snd (pageLoop c x t d page col seen w')) = llmScript (snd (pageLoop c x t d page col seen w))
       \<and> newsScript (snd (pageLoop c x t d page col seen w')) = newsScript (snd (pageLoop c x t d page col seen w))
       \<and> nowMs (snd (pageLoop c x t d page col seen w')) = nowMs (snd (pageLoop c x t d page col seen w))"
  using assms
proof (induction "Suc MAX_PAGES - page" arbitrary: page col seen w w')
  case 0
  then have "\<not> page \<le> MAX_PAGES" by simp
  then show ?case using "0.prems" by (simp add: pageLoop.simps)
next
  case (Suc k)
  show ?case
  proof (cases "int (length col) < newsMaxRequests c \<and> page \<le> MAX_PAGES")
    case False
    then show ?thesis using Suc.prems by (auto simp: pageLoop.simps)
  next
    case go: True
    let ?e = "Console (MsgFetchingPage page)"
    have e: "llmScript (emit ?e w') = llmScript (emit ?e w)"
      "newsScript (emit ?e w') = newsScript (emit ?e w)"
      "nowMs (emit ?e w') = nowMs (emit ?e w)"
      using Suc.prems by simp_all
    obtain r w1 where g: "axios_get t d page (emit ?e w) = (r, w1)"
      by (cases "axios_get t d page (emit ?e w)")
    obtain r' w1' where g': "axios_get t d page (emit ?e w') = (r', w1')"
      by (cases "axios_get t d page (emit ?e w')")
    from axios_get_env [OF e, of t d page] g g'
    have eq: "r' = r" "llmScript w1' = llmScript w1" "newsScript w1' = newsScript w1"
      "nowMs w1' = nowMs w1" by simp_all
    show ?thesis
    proof (cases r)
      case (Inl err)
      then show ?thesis using go g g' eq by (simp add: pageLoop.simps [of c x t d page])
    next
      case (Inr reply)
      show ?thesis
      proof (cases reply)
        case RequestFails
        then show ?thesis using go g g' eq Inr by (simp add: pageLoop.simps [of c x t d page])
      next
        case NoArticlesField
        then show ?thesis using go g g' eq Inr by (simp add: pageLoop.simps [of c x t d page])
      next
        case (Articles as)
        show ?thesis
        proof (cases "as = []")
          case True
          then show ?thesis
            using go g g' eq Inr Articles by (simp add: pageLoop.simps [of c x t d page])
        next
          case False
          obtain err col1 seen1 w2 where l: "articleLoop c x as col seen w1 = ((err, col1, seen1), w2)"
            by (cases "articleLoop c x as col seen w1") auto
          obtain err' col1' seen1' w2' where l': "articleLoop c x as col seen w1' = ((err', col1', seen1'), w2')"
            by (cases "articleLoop c x as col seen w1'") auto
          from articleLoop_env [OF eq(2-4), of c x as col seen] l l'
          have eq2: "err' = err" "col1' = col1" "seen1' = seen1" "llmScript w2' = llmScript w2"
            "newsScript w2' = newsScript w2" "nowMs w2' = nowMs w2" by simp_all
          show ?thesis
          proof (cases err)
            case (Some e0)
            then show ?thesis
              using go g g' eq Inr Articles False l l' eq2
              by (simp add: pageLoop.simps [of c x t d page])
          next
            case None
            have k: "k = Suc MAX_PAGES - (page + 1)" using Suc.hyps(2) by simp
            from Suc.hyps(1) [OF k eq2(4-6), of col1 seen1]
            show ?thesis
              using go g g' eq Inr Articles False l l' eq2 None
              by (simp add: pageLoop.simps [of c x t d page])
          qed
        qed
      qed
    qed
  qed
qed

lemma fetchFromProvider_env:
  assumes "llmScript w' = llmScript w" "newsScript w' = newsScript w" "nowMs w' = nowMs w"
  shows "fst (fetchFromProvider c x t w') = fst (fetchFromProvider c x t w)"
proof -
  let ?e = "Console (MsgFetchingFromApi (newsMaxRequests c))"
  have e: "llmScript (emit ?e w') = llmScript (emit ?e w)"
      "newsScript (emit ?e w') = newsScript (emit ?e w)"
      "nowMs (emit ?e w') = nowMs (emit ?e w)"
    using assms by simp_all
  from pageLoop_env [OF e] assms(3) show ?thesis
    by (simp add: fetchFromProvider_def Let_def split: prod.splits) (metis fst_conv)
qed

lemma prefix_emit: "prefix t (trace w) \<Longrightarrow> prefix t (trace (emit e w))"
  by (auto simp: prefix_def)

lemma chat_create_trace: "prefix (trace w) (trace (snd (chat_create s u w)))"
  by (simp add: chat_create_cases split: list.splits llm_reply.splits)

lemma validateRelevance_trace: "prefix (trace w) (trace (snd (validateRelevance x a w)))"
proof -
  have "prefix (trace w) (trace (snd (validateRelevance_try x a w)))"
    using chat_create_trace [of w gatekeeperSystem "gatekeeperUser a"]
    by (auto simp: validateRelevance_try_def split: prod.splits sum.splits option.splits)
  then show ?thesis
    by (auto simp: validateRelevance_def prefix_def split: prod.splits sum.splits)
qed

lemma axios_get_trace:
  "prefix (trace w @ [HttpGet t d p]) (trace (snd (axios_get t d p w)))"
  by (simp add: axios_get_def Let_def split: list.splits news_reply.splits)

lemma articleLoop_trace: "prefix (trace w) (trace (snd (articleLoop c x as col seen w)))"
proof (induction as arbitrary: col seen w)
  case Nil
  then show ?case by simp
next
  case (Cons a as)
  obtain r w1 where v: "validateRelevance x (toArticle a) w = (r, w1)"
    by (cases "validateRelevance x (toArticle a) w")
  with validateRelevance_trace [of w x "toArticle a"] have p: "prefix (trace w) (trace w1)" by simp
  have q: "prefix (trace w) (trace (snd (articleLoop c x as col' seen' (emit e w1))))" for col' seen' e
    using prefix_order.trans [OF prefix_emit [OF p] Cons.IH] .
  have i: "prefix (trace w) (trace (snd (articleLoop c x as col seen w)))"
    by (rule Cons.IH)
  show ?case
    using i v p q
    by (auto simp: Let_def split: sum.splits)
qed

lemma pageLoop_trace: "prefix (trace w) (trace (snd (pageLoop c x t d page col seen w)))"
proof (induction "Suc MAX_PAGES - page" arbitrary: page col seen w)
  case 0
  then have "\<not> page \<le> MAX_PAGES" by simp
  then show ?case by (simp add: pageLoop.simps)
next
  case (Suc k)
  let ?e = "Console (MsgFetchingPage page)"
  obtain r w1 where g: "axios_get t d page (emit ?e w) = (r, w1)"
    by (cases "axios_get t d page (emit ?e w)")
  from axios_get_trace [of "emit ?e w" t d page] g have p1: "prefix (trace w) (trace w1)"
    by (auto simp: prefix_def)
  show ?case
  proof (cases "int (length col) < newsMaxRequests c \<and> page \<le> MAX_PAGES")
    case False
    then show ?thesis by (auto simp: pageLoop.simps)
  next
    case go: True
    show ?thesis
    proof (cases r)
      case (Inl err)
      then show ?thesis using go g p1 by (simp add: pageLoop.simps [of c x t d page] prefix_emit)
    next
      case (Inr reply)
      show ?thesis
      proof (cases reply)
        case RequestFails
        then show ?thesis using go g p1 Inr by (simp add: pageLoop.simps [of c x t d page] prefix_emit)
      next
        case NoArticlesField
        then show ?thesis using go g p1 Inr by (simp add: pageLoop.simps [of c x t d page] prefix_emit)
      next
        case (Articles as)
        show ?thesis
        proof (cases "as = []")
          case True
          then show ?thesis using go g p1 Inr Articles
            by (simp add: pageLoop.simps [of c x t d page] prefix_emit)
        next
          case False
          obtain err col1 seen1 w2 where l: "articleLoop c x as col seen w1 = ((err, col1, seen1), w2)"
            by (cases "articleLoop c x as col seen w1") auto
          with articleLoop_trace [of w1 c x as col seen] p1 have p2: "prefix (trace w) (trace w2)"
            by (auto intro: prefix_order.trans)
          show ?thesis
          proof (cases err)
            case (Some e0)
            then show ?thesis using go g Inr Articles False l p2
              by (simp add: pageLoop.simps [of c x t d page] prefix_emit)
          next
            case None
            have k: "k = Suc MAX_PAGES - (page + 1)" using Suc.hyps(2) by simp
            have "prefix (trace w2) (trace (snd (pageLoop c x t d (page + 1) col1 seen1 w2)))"
              by (rule Suc.hyps(1) [OF k])
            with p2 show ?thesis using go g Inr Articles False l None
              by (simp add: pageLoop.simps [of c x t d page])
          qed
        qed
      qed
    qed
  qed
qed

lemma pageLoop_first_get:
  assumes go: "int (length col) < newsMaxRequests c \<and> page \<le> MAX_PAGES"
  shows "prefix (trace w @ [Console (MsgFetchingPage page), HttpGet t d page])
           (trace (snd (pageLoop c x t d page col seen w)))"
proof -
  let ?e = "Console (MsgFetchingPage page)"
  let ?t = "trace w @ [?e, HttpGet t d page]"
  obtain r w1 where g: "axios_get t d page (emit ?e w) = (r, w1)"
    by (cases "axios_get t d page (emit ?e w)")
  from axios_get_trace [of "emit ?e w" t d page] g have p1: "prefix ?t (trace w1)"
    by simp
  show ?thesis
  proof (cases r)
    case (Inl err)
    then show ?thesis using go g p1 by (simp add: pageLoop.simps [of c x t d page] prefix_emit)
  next
    case (Inr reply)
    show ?thesis
    proof (cases reply)
      case RequestFails
      then show ?thesis using go g p1 Inr by (simp add: pageLoop.simps [of c x t d page] prefix_emit)
    next
      case NoArticlesField
      then show ?thesis using go g p1 Inr by (simp add: pageLoop.simps [of c x t d page] prefix_emit)
    next
      case (Articles as)
      show ?thesis
      proof (cases "as = []")
        case True
        then show ?thesis using go g p1 Inr Articles
          by (simp add: pageLoop.simps [of c x t d page] prefix_emit)
      next
        case False
        obtain err col1 seen1 w2 where l: "articleLoop c x as col seen w1 = ((err, col1, seen1), w2)"
          by (cases "articleLoop c x as col seen w1") auto
        with articleLoop_trace [of w1 c x as col seen] p1 have p2: "prefix ?t (trace w2)"
          by (auto intro: prefix_order.trans)
        show ?thesis
        proof (cases err)
          case (Some e0)
          then show ?thesis using go g Inr Articles False l p2
            by (simp add: pageLoop.simps [of c x t d page] prefix_emit)
        next
          case None
          from p2 pageLoop_trace [of w2 c x t d "page + 1" col1 seen1]
          have "prefix ?t (trace (snd (pageLoop c x t d (page + 1) col1 seen1 w2)))"
            by (rule prefix_order.trans)
          then show ?thesis using go g Inr Articles False l None
            by (simp add: pageLoop.simps [of c x t d page])
        qed
      qed
    qed
  qed
qed

text \<open>
  C4, as the code has it.  An article-list entry is fresh when it is less than
  86400000 ms (24 hours) old.  A fresh entry with at least the requested number of
  articles is served from the cache: the Scout returns \<open>entry.slice(0, requested)\<close>,
  which is the first \<open>newsMaxRequests\<close> articles of the entry (the whole entry when
  it holds exactly that many), and does nothing but log, so no request is issued.
  With no entry, an entry that is 24 hours old or older, or a fresh entry that is
  too short, the Scout runs the provider path, whose articles depend on the
  provider replies and the clock only (not on the files), and which, when at least
  one article is requested, starts by requesting page 1.
\<close>

theorem fetchNews_cache_policy:
  "(\<forall>f xs. files w (listCachePath c tp) = Some f \<and> nowMs w - mtimeMs f < 86400000 \<and>
        content f = ArticleListFile xs \<and> newsMaxRequests c \<le> int (length xs) \<longrightarrow>
        fetchNews c x tp w =
          (Inr (slice0 xs (newsMaxRequests c)),
           emit (Console (MsgLoadingFromCache (newsMaxRequests c))) w)
        \<and> (0 \<le> newsMaxRequests c \<longrightarrow> slice0 xs (newsMaxRequests c) = take (nat (newsMaxRequests c)) xs)
        \<and> (newsMaxRequests c = int (length xs) \<longrightarrow> slice0 xs (newsMaxRequests c) = xs))
   \<and> (files w (listCachePath c tp) = None \<longrightarrow>
        fetchNews c x tp w = fetchFromProvider c x tp w)
   \<and> (\<forall>f. files w (listCachePath c tp) = Some f \<and> 86400000 \<le> nowMs w - mtimeMs f \<longrightarrow>
        fetchNews c x tp w = fetchFromProvider c x tp w)
   \<and> (\<forall>f xs. files w (listCachePath c tp) = Some f \<and> nowMs w - mtimeMs f < 86400000 \<and>
        content f = ArticleListFile xs \<and> int (length xs) < newsMaxRequests c \<longrightarrow>
        fetchNews c x tp w =
          fetchFromProvider c x tp
            (emit (Console (MsgCacheTooSmall (Some (length xs)) (newsMaxRequests c))) w))
   \<and> (\<forall>w'. llmScript w' = llmScript w \<and> newsScript w' = newsScript w \<and> nowMs w' = nowMs w \<longrightarrow>
        fst (fetchFromProvider c x tp w') = fst (fetchFromProvider c x tp w))
   \<and> (0 < newsMaxRequests c \<longrightarrow>
        prefix (trace w @
                 [Console (MsgFetchingFromApi (newsMaxRequests c)),
                  Console (MsgFetchingPage 1),
                  HttpGet tp
                    (takeWhile (\<lambda>ch. ch \<noteq> CHR ''T'') (toISOString x (minusDays x (nowMs w) 7))) 1])
               (trace (snd (fetchFromProvider c x tp w))))"
proof -
  let ?n = "newsMaxRequests c"
  let ?d = "takeWhile (\<lambda>ch. ch \<noteq> CHR ''T'') (toISOString x (minusDays x (nowMs w) 7))"
  have hit: "fetchNews c x tp w =
          (Inr (slice0 xs ?n), emit (Console (MsgLoadingFromCache ?n)) w)"
    if "files w (listCachePath c tp) = Some f" "nowMs w - mtimeMs f < 86400000"
       "content f = ArticleListFile xs" "?n \<le> int (length xs)" for f xs
    using that by (simp add: fetchNews_def readListCache_cases CACHE_TTL_def)
  have sl: "0 \<le> ?n \<longrightarrow> slice0 xs ?n = take (nat ?n) xs"
    "?n = int (length xs) \<longrightarrow> slice0 xs ?n = xs" for xs :: "NewsArticle list"
    by (simp_all add: slice0_def)
  have absent: "fetchNews c x tp w = fetchFromProvider c x tp w"
    if "files w (listCachePath c tp) = None"
    using that by (simp add: fetchNews_def readListCache_cases)
  have expired: "fetchNews c x tp w = fetchFromProvider c x tp w"
    if "files w (listCachePath c tp) = Some f" "86400000 \<le> nowMs w - mtimeMs f" for f
    using that by (simp add: fetchNews_def readListCache_cases CACHE_TTL_def)
  have small: "fetchNews c x tp w =
          fetchFromProvider c x tp (emit (Console (MsgCacheTooSmall (Some (length xs)) ?n)) w)"
    if "files w (listCachePath c tp) = Some f" "nowMs w - mtimeMs f < 86400000"
       "content f = ArticleListFile xs" "int (length xs) < ?n" for f xs
    using that by (simp add: fetchNews_def readListCache_cases CACHE_TTL_def)
  have env: "fst (fetchFromProvider c x tp w') = fst (fetchFromProvider c x tp w)"
    if "llmScript w' = llmScript w" "newsScript w' = newsScript w" "nowMs w' = nowMs w" for w'
    using that by (rule fetchFromProvider_env)
  have refetch: "prefix (trace w @ [Console (MsgFetchingFromApi ?n), Console (MsgFetchingPage 1),
                  HttpGet tp ?d 1])
               (trace (snd (fetchFromProvider c x tp w)))"
    if pos: "0 < ?n"
  proof -
    let ?w1 = "emit (Console (MsgFetchingFromApi ?n)) w"
    have go: "int (length ([]::NewsArticle list)) < ?n \<and> 1 \<le> MAX_PAGES"
      using pos by (simp add: MAX_PAGES_def)
    have a: "prefix (trace w @ [Console (MsgFetchingFromApi ?n), Console (MsgFetchingPage 1),
                  HttpGet tp ?d 1])
            (trace (snd (pageLoop c x tp ?d 1 [] {} ?w1)))"
      using pageLoop_first_get [OF go, of ?w1 tp ?d x "{}"] by simp
    have b: "prefix (trace (snd (pageLoop c x tp ?d 1 [] {} ?w1)))
        (trace (snd (fetchFromProvider c x tp w)))"
      by (simp add: fetchFromProvider_def Let_def writeFileSync_def split: prod.splits)
    from a b show ?thesis
      by (rule prefix_order.trans)
  qed
  show ?thesis
    using hit sl absent expired small env refetch by blast
qed

text \<open>
  C4 as stated does not hold: a fresh entry that holds more articles than requested
  is not used verbatim.  With three cached articles and two requested, the Scout
  returns the first two only.
\<close>

theorem longer_cached_entry_is_truncated:
  "fetchNews (demo_config\<lparr>newsMaxRequests := 2\<rparr>) demo_ext topic
      ((demo_world [] [])\<lparr>files := [''/app/cache/AI_business_use_cases.json'' \<mapsto>
         \<lparr>mtimeMs = 0, content = ArticleListFile
            [demo_article ''u1'', demo_article ''u2'', demo_article ''u3'']\<rparr>]\<rparr>)
   = (Inr [demo_article ''u1'', demo_article ''u2''],
      (demo_world [] [])\<lparr>files := [''/app/cache/AI_business_use_cases.json'' \<mapsto>
         \<lparr>mtimeMs = 0, content = ArticleListFile
            [demo_article ''u1'', demo_article ''u2'', demo_article ''u3'']\<rparr>],
         trace := [Console (MsgLoadingFromCache 2)]\<rparr>)
   \<and> [demo_article ''u1'', demo_article ''u2''] \<noteq>
       [demo_article ''u1'', demo_article ''u2'', demo_article ''u3'']"
  by (simp add: fetchNews_def readListCache_cases demo_listCachePath demo_world_def
      CACHE_TTL_def slice0_def emit_def)

theorem fetchNews_cache_policy_witness:
  "(fetchNews (demo_config\<lparr>newsMaxRequests := 2\<rparr>) demo_ext topic
      ((demo_world [] [])\<lparr>nowMs := 86399999,
         files := [''/app/cache/AI_business_use_cases.json'' \<mapsto>
         \<lparr>mtimeMs = 0, content = ArticleListFile [demo_article ''u1'', demo_article ''u2'']\<rparr>]\<rparr>)
   = (Inr [demo_article ''u1'', demo_article ''u2''],
      (demo_world [] [])\<lparr>nowMs := 86399999,
         files := [''/app/cache/AI_business_use_cases.json'' \<mapsto>
         \<lparr>mtimeMs = 0, content = ArticleListFile [demo_article ''u1'', demo_article ''u2'']\<rparr>],
         trace := [Console (MsgLoadingFromCache 2)]\<rparr>))
   \<and> (fetchNews (demo_config\<lparr>newsMaxRequests := 2\<rparr>) demo_ext topic
      ((demo_world [] [])\<lparr>nowMs := 86400000,
         files := [''/app/cache/AI_business_use_cases.json'' \<mapsto>
         \<lparr>mtimeMs = 0, content = ArticleListFile [demo_article ''u1'', demo_article ''u2'']\<rparr>]\<rparr>)
   = (Inl NoRelevantArticles,
      (demo_world [] [])\<lparr>nowMs := 86400000,
         files := [''/app/cache/AI_business_use_cases.json'' \<mapsto>
         \<lparr>mtimeMs = 0, content = ArticleListFile [demo_article ''u1'', demo_article ''u2'']\<rparr>],
         trace := [Console (MsgFetchingFromApi 2), Console (MsgFetchingPage 1),
           HttpGet topic ''2026-02-14'' 1, Console (MsgFetchPageError 1)]\<rparr>))
   \<and> (fetchNews (demo_config\<lparr>newsMaxRequests := 2\<rparr>) demo_ext topic (demo_world [] []) =
     (Inl NoRelevantArticles,
      (demo_world [] [])\<lparr>trace := [Console (MsgFetchingFromApi 2), Console (MsgFetchingPage 1),
         HttpGet topic ''2026-02-14'' 1, Console (MsgFetchPageError 1)]\<rparr>))
   \<and> (fst (fetchNews (demo_config\<lparr>newsMaxRequests := 2\<rparr>) demo_ext topic
      ((demo_world [Content (Some ''{\"is_business_case\": true}''), Content None,
                    Content (Some ''{\"is_business_case\": true}'')]
                   [Articles [\<lparr>raw_title = ''u2'', raw_url = ''u2'', raw_source_name = ''src'', raw_description = None\<rparr>,
                              \<lparr>raw_title = ''u3'', raw_url = ''u3'', raw_source_name = ''src'', raw_description = None\<rparr>,
                              \<lparr>raw_title = ''u4'', raw_url = ''u4'', raw_source_name = ''src'', raw_description = None\<rparr>]])
        \<lparr>files := [''/app/cache/AI_business_use_cases.json'' \<mapsto>
         \<lparr>mtimeMs = 0, content = ArticleListFile [demo_article ''u1'']\<rparr>]\<rparr>))
   = Inr [\<lparr>title = ''u2'', url = ''u2'', source = ''src'', description = []\<rparr>,
          \<lparr>title = ''u4'', url = ''u4'', source = ''src'', description = []\<rparr>])"
proof -
  let ?c = "demo_config\<lparr>newsMaxRequests := 2\<rparr>"
  let ?p = "''/app/cache/AI_business_use_cases.json''"
  note t = fetchNews_cache_policy [where c = ?c and x = demo_ext and tp = topic]
  note ev = fetchFromProvider_def pageLoop.simps [of _ _ _ _ 1] pageLoop.simps [of _ _ _ _ 2]
          pageLoop.simps [of _ _ _ _ "Suc 0"] pageLoop.simps [of _ _ _ _ "Suc (Suc 0)"]
          axios_get_def MAX_PAGES_def demo_world_def emit_def toArticle_def
          validateRelevance_def validateRelevance_try_def chat_create_def Let_def
          demo_parse_simps demo_ext_simps writeFileSync_def
  have fresh: "fetchNews ?c demo_ext topic
      ((demo_world [] [])\<lparr>nowMs := 86399999,
         files := [?p \<mapsto>
         \<lparr>mtimeMs = 0, content = ArticleListFile [demo_article ''u1'', demo_article ''u2'']\<rparr>]\<rparr>)
   = (Inr [demo_article ''u1'', demo_article ''u2''],
      (demo_world [] [])\<lparr>nowMs := 86399999,
         files := [?p \<mapsto>
         \<lparr>mtimeMs = 0, content = ArticleListFile [demo_article ''u1'', demo_article ''u2'']\<rparr>],
         trace := [Console (MsgLoadingFromCache 2)]\<rparr>)"
  proof -
    let ?xs = "[demo_article ''u1'', demo_article ''u2'']"
    let ?f = "\<lparr>mtimeMs = 0, content = ArticleListFile ?xs\<rparr>"
    let ?w = "(demo_world [] [])\<lparr>nowMs := 86399999, files := [?p \<mapsto> ?f]\<rparr>"
    have h: "files ?w (listCachePath ?c topic) = Some ?f \<and> nowMs ?w - mtimeMs ?f < 86400000 \<and>
          content ?f = ArticleListFile ?xs \<and> newsMaxRequests ?c \<le> int (length ?xs)"
      by (simp add: demo_listCachePath demo_world_simps)
    from t [where w = ?w, THEN conjunct1, rule_format, OF h]
    show ?thesis
      by (simp add: emit_def demo_world_def)
  qed
  have expired: "fetchNews ?c demo_ext topic
      ((demo_world [] [])\<lparr>nowMs := 86400000,
         files := [?p \<mapsto>
         \<lparr>mtimeMs = 0, content = ArticleListFile [demo_article ''u1'', demo_article ''u2'']\<rparr>]\<rparr>)
   = (Inl NoRelevantArticles,
      (demo_world [] [])\<lparr>nowMs := 86400000,
         files := [?p \<mapsto>
         \<lparr>mtimeMs = 0, content = ArticleListFile [demo_article ''u1'', demo_article ''u2'']\<rparr>],
         trace := [Console (MsgFetchingFromApi 2), Console (MsgFetchingPage 1),
           HttpGet topic ''2026-02-14'' 1, Console (MsgFetchPageError 1)]\<rparr>)"
  proof -
    let ?xs = "[demo_article ''u1'', demo_article ''u2'']"
    let ?f = "\<lparr>mtimeMs = 0, content = ArticleListFile ?xs\<rparr>"
    let ?w = "(demo_world [] [])\<lparr>nowMs := 86400000, files := [?p \<mapsto> ?f]\<rparr>"
    have h: "files ?w (listCachePath ?c topic) = Some ?f \<and> 86400000 \<le> nowMs ?w - mtimeMs ?f"
      by (simp add: demo_listCachePath demo_world_simps)
    from t [where w = ?w, THEN conjunct2, THEN conjunct2, THEN conjunct1, rule_format, OF h]
    show ?thesis
      by (simp add: ev)
  qed
  have absent: "fetchNews ?c demo_ext topic (demo_world [] []) =
     (Inl NoRelevantArticles,
      (demo_world [] [])\<lparr>trace := [Console (MsgFetchingFromApi 2), Console (MsgFetchingPage 1),
         HttpGet topic ''2026-02-14'' 1, Console (MsgFetchPageError 1)]\<rparr>)"
  proof -
    let ?w = "demo_world [] []"
    have h: "files ?w (listCachePath ?c topic) = None"
      by (simp add: demo_world_simps)
    from t [where w = ?w, THEN conjunct2, THEN conjunct1, rule_format, OF h]
    show ?thesis
      by (simp add: ev)
  qed
  have small: "fst (fetchNews ?c demo_ext topic
      ((demo_world [Content (Some ''{\"is_business_case\": true}''), Content None,
                    Content (Some ''{\"is_business_case\": true}'')]
                   [Articles [\<lparr>raw_title = ''u2'', raw_url = ''u2'', raw_source_name = ''src'', raw_description = None\<rparr>,
                              \<lparr>raw_title = ''u3'', raw_url = ''u3'', raw_source_name = ''src'', raw_description = None\<rparr>,
                              \<lparr>raw_title = ''u4'', raw_url = ''u4'', raw_source_name = ''src'', raw_description = None\<rparr>]])
        \<lparr>files := [?p \<mapsto>
         \<lparr>mtimeMs = 0, content = ArticleListFile [demo_article ''u1'']\<rparr>]\<rparr>))
   = Inr [\<lparr>title = ''u2'', url = ''u2'', source = ''src'', description = []\<rparr>,
          \<lparr>title = ''u4'', url = ''u4'', source = ''src'', description = []\<rparr>]"
  proof -
    let ?xs = "[demo_article ''u1'']"
    let ?f = "\<lparr>mtimeMs = 0, content = ArticleListFile ?xs\<rparr>"
    let ?w = "(demo_world [Content (Some ''{\"is_business_case\": true}''), Content None,
                    Content (Some ''{\"is_business_case\": true}'')]
                   [Articles [\<lparr>raw_title = ''u2'', raw_url = ''u2'', raw_source_name = ''src'', raw_description = None\<rparr>,
                              \<lparr>raw_title = ''u3'', raw_url = ''u3'', raw_source_name = ''src'', raw_description = None\<rparr>,
                              \<lparr>raw_title = ''u4'', raw_url = ''u4'', raw_source_name = ''src'', raw_description = None\<rparr>]])
        \<lparr>files := [?p \<mapsto> ?f]\<rparr>"
    have h: "files ?w (listCachePath ?c topic) = Some ?f \<and> nowMs ?w - mtimeMs ?f < 86400000 \<and>
          content ?f = ArticleListFile ?xs \<and> int (length ?xs) < newsMaxRequests ?c"
      by (simp add: demo_listCachePath demo_world_simps)
    from t [where w = ?w, THEN conjunct2, THEN conjunct2, THEN conjunct2, THEN conjunct1,
        rule_format, OF h]
    show ?thesis
      by (simp add: ev)
  qed
  from fresh expired absent small show ?thesis by blast
qed


subsection \<open>The Orchestrator\<close>






lemma renderRows_Nil_ok: "renderRows x [] = Inr []"
  by simp












subsection \<open>The Reporter\<close>

text \<open>
  C9, as the code has it.  \<open>generateHTMLReport\<close> does the output itself and
  returns nothing.  When the rows render, it creates the reports directory if it
  is missing, writes the document to \<open>reports/report_<today>.html\<close> and logs;
  the document is determined by the rows of the result list and the date range;
  the scripted replies, the clock and every other file are as before.  When a row
  throws, nothing is written (the directory may have been created).
\<close>

theorem generateHTMLReport_effects:
  "(\<forall>rows. renderRows x results = Inr rows \<longrightarrow>
      generateHTMLReport c x results w =
        (Inr (),
         w\<lparr>files := (files w)
               (path_join (REPORTS_DIR c) (''report_'' @ toLocaleDateString x (nowMs w) @ ''.html'') \<mapsto>
                  \<lparr>mtimeMs = nowMs w,
                   content = HtmlFile (htmlContent
                     (toLocaleDateString x (minusDays x (nowMs w) 7) @ '' to '' @
                        toLocaleDateString x (nowMs w)) rows)\<rparr>),
           dirs := insert (REPORTS_DIR c) (dirs w),
           trace := trace w @ (if REPORTS_DIR c \<in> dirs w then [] else [MkDir (REPORTS_DIR c)]) @
             [WriteFile
                (path_join (REPORTS_DIR c) (''report_'' @ toLocaleDateString x (nowMs w) @ ''.html''))
                (HtmlFile (htmlContent
                     (toLocaleDateString x (minusDays x (nowMs w) 7) @ '' to '' @
                        toLocaleDateString x (nowMs w)) rows)),
              Console (MsgReportGenerated
                (path_join (REPORTS_DIR c)
                   (''report_'' @ toLocaleDateString x (nowMs w) @ ''.html'')))]\<rparr>))
   \<and> (\<forall>e. renderRows x results = Inl e \<longrightarrow>
        generateHTMLReport c x results w =
          (Inl e,
           w\<lparr>dirs := insert (REPORTS_DIR c) (dirs w),
             trace := trace w @ (if REPORTS_DIR c \<in> dirs w then [] else [MkDir (REPORTS_DIR c)])\<rparr>))"
  by (auto simp: generateHTMLReport_def Let_def mkdirIfMissing_def writeFileSync_def emit_def
      insert_absorb)

text \<open>
  C9, as stated, fails: on an empty disk and an empty result list
  \<open>generateHTMLReport\<close> creates the directory, writes the report file and
  logs, and its value is \<open>()\<close>, not the document.
\<close>

theorem generateHTMLReport_writes_the_file_itself:
  "generateHTMLReport demo_config demo_ext [] (demo_world [] []) =
     (Inr (),
      \<lparr>llmScript = [], newsScript = [],
       files = [''/app/reports/report_2026-02-14.html'' \<mapsto>
                  \<lparr>mtimeMs = 0, content = HtmlFile (htmlContent ''2026-02-07 to 2026-02-14'' [])\<rparr>],
       dirs = {''/app/reports''}, nowMs = 0,
       trace = [MkDir ''/app/reports'',
                WriteFile ''/app/reports/report_2026-02-14.html''
                  (HtmlFile (htmlContent ''2026-02-07 to 2026-02-14'' [])),
                Console (MsgReportGenerated ''/app/reports/report_2026-02-14.html'')]\<rparr>)
   \<and> demo_world [] [] = \<lparr>llmScript = [], newsScript = [], files = Map.empty, dirs = {},
                          nowMs = 0, trace = []\<rparr>"
  by (simp add: generateHTMLReport_def Let_def mkdirIfMissing_def writeFileSync_def emit_def
      REPORTS_DIR_def path_join_def demo_config_def demo_ext_simps demo_world_def)

theorem generateHTMLReport_effects_witness:
  "generateHTMLReport demo_config demo_ext [mkResult (demo_article ''u1'') demo_analysis]
     ((demo_world [] [])\<lparr>dirs := {''/app/reports''}, nowMs := 5\<rparr>) =
     (Inr (),
      \<lparr>llmScript = [], newsScript = [],
       files = [''/app/reports/report_2026-02-14.html'' \<mapsto>
                  \<lparr>mtimeMs = 5, content = HtmlFile (htmlContent ''2026-02-07 to 2026-02-14''
                     (rowHtml (mkResult (demo_article ''u1'') demo_analysis)
                        (formattedAnalysis (sanitizeHtml ''<p>s</p>\<newline>'') (sanitizeHtml ''<p>d</p>\<newline>'')
                           (sanitizeHtml ''<p>h</p>\<newline>'') (sanitizeHtml ''<p>c</p>\<newline>''))
                        ''high-risk'' ''9''))\<rparr>],
       dirs = {''/app/reports''}, nowMs = 5,
       trace = [WriteFile ''/app/reports/report_2026-02-14.html''
                  (HtmlFile (htmlContent ''2026-02-07 to 2026-02-14''
                     (rowHtml (mkResult (demo_article ''u1'') demo_analysis)
                        (formattedAnalysis (sanitizeHtml ''<p>s</p>\<newline>'') (sanitizeHtml ''<p>d</p>\<newline>'')
                           (sanitizeHtml ''<p>h</p>\<newline>'') (sanitizeHtml ''<p>c</p>\<newline>''))
                        ''high-risk'' ''9''))),
                Console (MsgReportGenerated ''/app/reports/report_2026-02-14.html'')]\<rparr>)
   \<and> generateHTMLReport demo_config demo_ext [mkResult (demo_article ''u1'') (JObj [])]
        (demo_world [] []) =
       (Inl MarkedError, (demo_world [] [])\<lparr>dirs := {''/app/reports''}, trace := [MkDir ''/app/reports'']\<rparr>)"
proof -
  let ?r = "mkResult (demo_article ''u1'') demo_analysis"
  let ?w = "(demo_world [] [])\<lparr>dirs := {''/app/reports''}, nowMs := 5\<rparr>"
  have ok: "renderRows demo_ext [?r] = Inr (rowHtml ?r
      (formattedAnalysis (sanitizeHtml ''<p>s</p>\<newline>'') (sanitizeHtml ''<p>d</p>\<newline>'')
         (sanitizeHtml ''<p>h</p>\<newline>'') (sanitizeHtml ''<p>c</p>\<newline>''))
      ''high-risk'' ''9'')"
    by (simp add: demo_renderRow)
  have bad: "renderRows demo_ext [mkResult (demo_article ''u1'') (JObj [])] = Inl MarkedError"
    by (simp add: renderRow_def mkResult_def renderField_def demo_ext_simps demo_marked_def)
  from generateHTMLReport_effects [of demo_ext "[?r]" demo_config ?w, THEN conjunct1, rule_format, OF ok]
    generateHTMLReport_effects [of demo_ext "[mkResult (demo_article ''u1'') (JObj [])]" demo_config
      "demo_world [] []", THEN conjunct2, rule_format, OF bad]
  show ?thesis
    by (simp add: REPORTS_DIR_def path_join_def demo_config_def demo_ext_simps demo_world_def)
qed


subsection \<open>Sanitization\<close>








lemma lower_simps [simp]:
  "lower (CHR ''<'') = CHR ''<''" "lower (CHR ''j'') = CHR ''j''" "lower (CHR ''v'') = CHR ''v''"
  "lower (CHR '':'') = CHR '':''"
  "lower (CHR ''>'') = CHR ''>''" "lower (CHR ''/'') = CHR ''/''"
  "lower (CHR ''s'') = CHR ''s''" "lower (CHR ''c'') = CHR ''c''" "lower (CHR ''r'') = CHR ''r''"
  "lower (CHR ''i'') = CHR ''i''" "lower (CHR ''p'') = CHR ''p''" "lower (CHR ''t'') = CHR ''t''"
  "lower (CHR ''a'') = CHR ''a''" "lower (CHR ''l'') = CHR ''l''" "lower (CHR ''e'') = CHR ''e''"
  "lower (CHR ''('') = CHR ''(''" "lower (CHR '')'') = CHR '')''" "lower (CHR ''1'') = CHR ''1''"
  by (simp_all add: lower_def)








lemma find_ci_prefix: "ci_prefix pat (ch # s) \<Longrightarrow> find_ci pat (ch # s) \<noteq> None"
  by simp







subsection \<open>The analysis cache key\<close>

lemma articleHash_cacheKey:
  "articleHash x article = cacheKey x article (systemPrompt @ userPrompt article)"
  by (simp add: articleHash_def cacheKey_def promptHash_def)

text \<open>
  C3, as the code has it.  The key of \<open>analyzeMotive\<close> is the digest of the
  article's identity followed by the digest of the prompt text.  Two different
  prompt texts give different keys for the same article whenever the digest does
  not collide on the two prompt texts and on the two strings that are hashed for
  the keys.
\<close>

theorem cacheKey_differs_without_collision:
  "articleHash x article = cacheKey x article (systemPrompt @ userPrompt article)
   \<and> (P1 \<noteq> P2 \<and>
        inj_on (md5_hex x)
          {P1, P2,
           (if url article \<noteq> [] then url article else title article) @ md5_hex x P1,
           (if url article \<noteq> [] then url article else title article) @ md5_hex x P2}
        \<longrightarrow> cacheKey x article P1 \<noteq> cacheKey x article P2)"
proof -
  let ?i = "if url article \<noteq> [] then url article else title article"
  have "cacheKey x article P1 \<noteq> cacheKey x article P2"
    if ne: "P1 \<noteq> P2"
      and inj: "inj_on (md5_hex x) {P1, P2, ?i @ md5_hex x P1, ?i @ md5_hex x P2}"
  proof -
    from inj ne have "md5_hex x P1 \<noteq> md5_hex x P2"
      by (auto simp: inj_on_def)
    then have "?i @ md5_hex x P1 \<noteq> ?i @ md5_hex x P2"
      by simp
    with inj have "md5_hex x (?i @ md5_hex x P1) \<noteq> md5_hex x (?i @ md5_hex x P2)"
      by (auto simp: inj_on_def)
    then show ?thesis
      by (simp add: cacheKey_def)
  qed
  then show ?thesis
    using articleHash_cacheKey by blast
qed

theorem cacheKey_differs_without_collision_witness:
  "cacheKey (demo_ext\<lparr>md5_hex := (\<lambda>s. s)\<rparr>) (demo_article ''u1'') ''prompt one'' \<noteq>
   cacheKey (demo_ext\<lparr>md5_hex := (\<lambda>s. s)\<rparr>) (demo_article ''u1'') ''prompt two''"
proof -
  have "''prompt one'' \<noteq> ''prompt two''" by simp
  moreover have "inj_on (md5_hex (demo_ext\<lparr>md5_hex := (\<lambda>s. s)\<rparr>)) A" for A
    by (simp add: inj_on_def)
  ultimately show ?thesis
    using cacheKey_differs_without_collision
      [of "demo_ext\<lparr>md5_hex := (\<lambda>s. s)\<rparr>" "demo_article ''u1''" "''prompt one''" "''prompt two''"]
    by blast
qed

lemma finite_fixed_length_strings: "finite {s :: string. length s = n}"
proof -
  have "{s :: string. length s = n} = {s. set s \<subseteq> UNIV \<and> length s = n}"
    by simp
  also have "finite \<dots>"
    by (rule finite_lists_length_eq) simp
  finally show ?thesis .
qed

text \<open>
  C3, as stated, fails for every digest of a fixed length, such as the 32
  hexadecimal characters of an MD5 digest: there are only finitely many keys and
  infinitely many prompt texts, so two different prompt texts share a key.
\<close>

theorem cacheKey_not_injective_in_prompt:
  "\<not> (\<exists>x. (\<forall>s. length (md5_hex x s) = 32) \<and>
           (\<forall>P1 P2. P1 \<noteq> P2 \<longrightarrow>
              cacheKey x (demo_article ''u1'') P1 \<noteq> cacheKey x (demo_article ''u1'') P2))"
proof
  assume "\<exists>x. (\<forall>s. length (md5_hex x s) = 32) \<and>
           (\<forall>P1 P2. P1 \<noteq> P2 \<longrightarrow>
              cacheKey x (demo_article ''u1'') P1 \<noteq> cacheKey x (demo_article ''u1'') P2)"
  then obtain x where len: "\<And>s. length (md5_hex x s) = 32"
    and inj: "\<And>P1 P2. P1 \<noteq> P2 \<Longrightarrow>
              cacheKey x (demo_article ''u1'') P1 \<noteq> cacheKey x (demo_article ''u1'') P2"
    by blast
  let ?k = "cacheKey x (demo_article ''u1'')"
  have "inj ?k"
    using inj by (auto simp: inj_on_def)
  moreover have "range ?k \<subseteq> {s. length s = 32}"
    using len by (auto simp: cacheKey_def)
  then have "finite (range ?k)"
    using finite_fixed_length_strings by (rule finite_subset)
  ultimately have "finite (UNIV :: string set)"
    by (rule finite_imageD [rotated])
  then show False
    using infinite_UNIV_listI by blast
qed

end
